theory Spec2Isabelle
  imports Complex_Main
begin

section \<open>Numbers, dates and JavaScript truthiness\<close>

text \<open>
  The schemas compute with JavaScript numbers. A number stored in a document is modelled
  as an exact rational: finite, with no rounding. \<open>NaN\<close>, which local values take, and the
  infinite quotient of a division by \<open>0\<close> are modelled where they arise. A \<open>Date\<close> is its
  millisecond timestamp.
  An optional field (\<open>f?: number\<close>) is an \<open>option\<close>, \<open>None\<close> being \<open>undefined\<close>.

  Each interface is a record of the fields that the modelled methods read or write; the
  methods are defined on the extensible record, so the remaining fields of a document
  ride along unchanged. Record fields keep the names of the TypeScript interfaces; where
  two interfaces share a field name the selector is written qualified (\<open>IOrder.total\<close>,
  \<open>IInvoice.total\<close>). The field \<open>val\<close> of a discount is the source's \<open>value\<close>.
\<close>

type_synonym number = rat
type_synonym Date = int

text \<open>\<open>if (x)\<close> on an optional number: false for \<open>undefined\<close> and for \<open>0\<close>.\<close>

definition truthy :: "number option \<Rightarrow> bool" where
  "truthy x = (case x of None \<Rightarrow> False | Some v \<Rightarrow> v \<noteq> 0)"

text \<open>\<open>(x || 0)\<close> on an optional number.\<close>

definition or0 :: "number option \<Rightarrow> number" where
  "or0 x = (case x of None \<Rightarrow> 0 | Some v \<Rightarrow> v)"

text \<open>
  Two things that Mongoose documents do differently from plain objects decide what the
  methods below compute.

  A discount declared as \<open>discount: { type: ..., value: Number, amount: Number }\<close> is a
  nested path: on a document \<open>doc.discount\<close> is always an object, so \<open>if (item.discount)\<close>
  and \<open>if (this.discount)\<close> always succeed. A discount that was never given is that
  object with \<open>type\<close>, \<open>value\<close> and \<open>amount\<close> all \<open>undefined\<close>; it is \<open>None\<close> here, and
  reading its \<open>value\<close> or \<open>amount\<close> gives \<open>undefined\<close>.

  Arithmetic on \<open>undefined\<close> gives \<open>NaN\<close>, and \<open>NaN\<close> stays \<open>NaN\<close> in every sum. A local
  variable can hold \<open>NaN\<close>; a \<open>Number\<close> path of a document cannot: an assignment of \<open>NaN\<close>
  to it is refused and the path keeps the value it had.
\<close>

datatype jsnum = Num number | NaN

text \<open>An optional number read into an arithmetic expression.\<close>

definition of_undefined :: "number option \<Rightarrow> jsnum" where
  "of_undefined x = (case x of None \<Rightarrow> NaN | Some v \<Rightarrow> Num v)"

fun js_add :: "jsnum \<Rightarrow> jsnum \<Rightarrow> jsnum" where
  "js_add (Num a) (Num b) = Num (a + b)"
| "js_add _ _ = NaN"

fun js_sub :: "jsnum \<Rightarrow> jsnum \<Rightarrow> jsnum" where
  "js_sub (Num a) (Num b) = Num (a - b)"
| "js_sub _ _ = NaN"

text \<open>The value of a \<open>Number\<close> path that held \<open>old\<close>, after the assignment of \<open>x\<close> to it.\<close>

definition assign :: "jsnum \<Rightarrow> number \<Rightarrow> number" where
  "assign x old = (case x of NaN \<Rightarrow> old | Num v \<Rightarrow> v)"

section \<open>ProductSchema: the quantity counters\<close>

record IProduct =
  quantity :: number
  reservedQuantity :: number
  availableQuantity :: number

text \<open>
  The validators the schema declares on the three counters (\<open>min: 0\<close> each), as a save
  checks them on a new document. Mongoose validates before it runs any \<open>pre('save')\<close>
  hook of the schema, so \<open>availableQuantity\<close> is checked as the caller left it.
\<close>

definition Product_validate :: "'a IProduct_scheme \<Rightarrow> bool" where
  "Product_validate p =
     (0 \<le> IProduct.quantity p \<and> 0 \<le> reservedQuantity p \<and> 0 \<le> availableQuantity p)"

text \<open>
  \<open>ProductSchema.pre('save')\<close>, the statement on the counters. (The hook also fills
  \<open>sku\<close>, \<open>daysInInventory\<close> and \<open>priceHistory\<close>, which read and write no counter.)
\<close>

definition Product_pre_save :: "'a IProduct_scheme \<Rightarrow> 'a IProduct_scheme" where
  "Product_pre_save p = p\<lparr>availableQuantity := IProduct.quantity p - reservedQuantity p\<rparr>"

definition calculateAvailableQuantity :: "'a IProduct_scheme \<Rightarrow> number" where
  "calculateAvailableQuantity p = IProduct.quantity p - reservedQuantity p"

text \<open>A save: validation, then the hook; \<open>None\<close> is a rejected document.\<close>

definition Product_save :: "'a IProduct_scheme \<Rightarrow> 'a IProduct_scheme option" where
  "Product_save p = (if Product_validate p then Some (Product_pre_save p) else None)"

section \<open>OrderSchema\<close>

datatype DiscountType = PERCENTAGE | FIXED_AMOUNT | BUY_X_GET_Y | VOLUME_DISCOUNT

datatype PaymentStatus =
  PENDING | PROCESSING | COMPLETED | FAILED | PARTIALLY_PAID | REFUNDED | CANCELLED

text \<open>The shape \<open>{type, value, amount}\<close> of an item's discount and of an order-level discount.\<close>

record IDiscount =
  type :: DiscountType
  val :: number
  amount :: number

record IOrderItem =
  unitPrice :: number
  quantity :: number
  subtotal :: number
  discount :: "IDiscount option"
  tax :: "number option"
  total :: number

record IPayment =
  status :: PaymentStatus
  amount :: number
  refundAmount :: "number option"

record IOrder =
  items :: "IOrderItem list"
  totalItems :: number
  totalQuantity :: number
  subtotal :: number
  discountTotal :: number
  taxTotal :: number
  shippingCost :: number
  handlingFee :: "number option"
  total :: number
  discounts :: "IDiscount list option"
  paymentStatus :: PaymentStatus
  payments :: "IPayment list"
  totalPaid :: number
  balanceDue :: number

text \<open>
  The four local accumulators of \<open>calculateTotals\<close>, each initially \<open>0\<close>. Only
  \<open>discountTotal\<close> can become \<open>NaN\<close>: the others add numbers that the item has.
\<close>

record Acc =
  acc_subtotal :: number
  acc_totalQuantity :: number
  acc_discountTotal :: jsnum
  acc_taxTotal :: number

definition acc_init :: Acc where
  "acc_init =
     \<lparr>acc_subtotal = 0, acc_totalQuantity = 0, acc_discountTotal = Num 0, acc_taxTotal = 0\<rparr>"

text \<open>
  The assignment to \<open>discount.amount\<close>, written twice in the source (for an item with
  its own subtotal, for an order-level discount with the order's subtotal): a percentage
  of the base for \<open>PERCENTAGE\<close>, the value itself for every other type.
\<close>

definition setAmount :: "number \<Rightarrow> IDiscount \<Rightarrow> IDiscount" where
  "setAmount base d =
     (if IDiscount.type d = PERCENTAGE
      then d\<lparr>IDiscount.amount := base * (val d / 100)\<rparr>
      else d\<lparr>IDiscount.amount := val d\<rparr>)"

text \<open>\<open>item.discount.amount\<close>, \<open>undefined\<close> on an item without discount.\<close>

definition itemDiscountField :: "IOrderItem \<Rightarrow> number option" where
  "itemDiscountField item =
     (case IOrderItem.discount item of None \<Rightarrow> None | Some d \<Rightarrow> Some (IDiscount.amount d))"

text \<open>\<open>(item.discount?.amount || 0)\<close>\<close>

definition itemDiscountAmount :: "IOrderItem \<Rightarrow> number" where
  "itemDiscountAmount item =
     (case IOrderItem.discount item of None \<Rightarrow> 0 | Some d \<Rightarrow> IDiscount.amount d)"

text \<open>
  The body of \<open>this.items.forEach\<close>: the item as rewritten, and the accumulators. The
  block under \<open>if (item.discount)\<close> always runs. On an item without discount it assigns
  \<open>undefined\<close> to \<open>item.discount.amount\<close>, which leaves the item as it was, and adds
  \<open>undefined\<close> to the local \<open>discountTotal\<close>, which makes it \<open>NaN\<close>.
\<close>

definition item_step :: "IOrderItem \<Rightarrow> Acc \<Rightarrow> IOrderItem \<times> Acc" where
  "item_step item a =
     (let i1 = item\<lparr>IOrderItem.subtotal := unitPrice item * IOrderItem.quantity item\<rparr>;
          i2 = (case IOrderItem.discount i1 of
                  None \<Rightarrow> i1
                | Some d \<Rightarrow> i1\<lparr>IOrderItem.discount := Some (setAmount (IOrderItem.subtotal i1) d)\<rparr>);
          a1 = a\<lparr>acc_discountTotal :=
                   js_add (acc_discountTotal a) (of_undefined (itemDiscountField i2))\<rparr>;
          a2 = (if truthy (tax i2) then a1\<lparr>acc_taxTotal := acc_taxTotal a1 + or0 (tax i2)\<rparr> else a1);
          i3 = i2\<lparr>IOrderItem.total := IOrderItem.subtotal i2 - itemDiscountAmount i2 + or0 (tax i2)\<rparr>;
          a3 = a2\<lparr>acc_subtotal := acc_subtotal a2 + IOrderItem.subtotal i3,
                   acc_totalQuantity := acc_totalQuantity a2 + IOrderItem.quantity i3\<rparr>
      in (i3, a3))"

fun items_forEach :: "IOrderItem list \<Rightarrow> Acc \<Rightarrow> IOrderItem list \<times> Acc" where
  "items_forEach [] a = ([], a)"
| "items_forEach (item # rest) a =
     (case item_step item a of (item', a') \<Rightarrow>
        (case items_forEach rest a' of (rest', a'') \<Rightarrow> (item' # rest', a'')))"

text \<open>
  The body of \<open>this.discounts.forEach\<close>: \<open>sub\<close> is \<open>this.subtotal\<close>, \<open>dt\<close> the running
  \<open>this.discountTotal\<close>.
\<close>

fun discounts_forEach :: "number \<Rightarrow> IDiscount list \<Rightarrow> number \<Rightarrow> IDiscount list \<times> number" where
  "discounts_forEach sub [] dt = ([], dt)"
| "discounts_forEach sub (d # rest) dt =
     (let d' = setAmount sub d in
        (case discounts_forEach sub rest (dt + IDiscount.amount d') of
           (rest', dt') \<Rightarrow> (d' # rest', dt')))"

text \<open>\<open>this.payments.filter(p => p.status === COMPLETED).reduce((sum, p) => sum + p.amount, 0)\<close>\<close>

definition completedPaid :: "IPayment list \<Rightarrow> number" where
  "completedPaid ps =
     foldl (\<lambda>s p. s + IPayment.amount p) 0 (filter (\<lambda>p. IPayment.status p = COMPLETED) ps)"

text \<open>
  \<open>OrderSchema.methods.calculateTotals\<close>, one definition for each commented block of
  the method, in the order of the source.
\<close>

text \<open>
  ``Calculate item totals'': the loop over the items and the five assignments after it.
  \<open>this.discountTotal = discountTotal\<close> is refused when the local is \<open>NaN\<close>.
\<close>

definition calcItemTotals :: "'a IOrder_scheme \<Rightarrow> 'a IOrder_scheme" where
  "calcItemTotals ord =
     (case items_forEach (items ord) acc_init of
        (items', a) \<Rightarrow>
          ord\<lparr>items := items',
               IOrder.subtotal := acc_subtotal a,
               totalQuantity := acc_totalQuantity a,
               totalItems := of_nat (length items'),
               discountTotal := assign (acc_discountTotal a) (discountTotal ord),
               taxTotal := acc_taxTotal a\<rparr>)"

text \<open>The order-level discounts that \<open>if (this.discounts)\<close> lets the loop visit.\<close>

definition orderDiscounts :: "'a IOrder_scheme \<Rightarrow> IDiscount list" where
  "orderDiscounts ord = (case discounts ord of None \<Rightarrow> [] | Some ds \<Rightarrow> ds)"

text \<open>``Apply order-level discounts''.\<close>

definition applyOrderDiscounts :: "'a IOrder_scheme \<Rightarrow> 'a IOrder_scheme" where
  "applyOrderDiscounts ord =
     (case discounts ord of
        None \<Rightarrow> ord
      | Some ds \<Rightarrow>
          (case discounts_forEach (IOrder.subtotal ord) ds (discountTotal ord) of
             (ds', dt) \<Rightarrow> ord\<lparr>discounts := Some ds', discountTotal := dt\<rparr>))"

text \<open>``Calculate final total''.\<close>

definition calcFinalTotal :: "'a IOrder_scheme \<Rightarrow> 'a IOrder_scheme" where
  "calcFinalTotal ord =
     ord\<lparr>IOrder.total :=
           IOrder.subtotal ord - discountTotal ord + taxTotal ord
           + shippingCost ord + or0 (handlingFee ord)\<rparr>"

text \<open>``Calculate payment totals'', with the balance due.\<close>

definition calcPaymentTotals :: "'a IOrder_scheme \<Rightarrow> 'a IOrder_scheme" where
  "calcPaymentTotals ord =
     (let o1 = ord\<lparr>totalPaid := completedPaid (payments ord)\<rparr>
      in o1\<lparr>balanceDue := IOrder.total o1 - totalPaid o1\<rparr>)"

text \<open>``Update payment status''; the chain has no final \<open>else\<close>.\<close>

definition updatePaymentStatus :: "'a IOrder_scheme \<Rightarrow> 'a IOrder_scheme" where
  "updatePaymentStatus ord =
     (if balanceDue ord \<le> 0 then ord\<lparr>paymentStatus := COMPLETED\<rparr>
      else if totalPaid ord > 0 then ord\<lparr>paymentStatus := PARTIALLY_PAID\<rparr>
      else ord)"

definition Order_calculateTotals :: "'a IOrder_scheme \<Rightarrow> 'a IOrder_scheme" where
  "Order_calculateTotals ord =
     updatePaymentStatus (calcPaymentTotals (calcFinalTotal (applyOrderDiscounts (calcItemTotals ord))))"

section \<open>FinancialSchema: invoices\<close>

datatype InvoiceStatus =
  DRAFT | SENT | VIEWED | PARTIALLY_PAID | PAID | OVERDUE | CANCELLED | REFUNDED

datatype InvoiceDiscountType = PERCENTAGE | FIXED

record IInvoiceItem =
  quantity :: number
  unitPrice :: number
  subtotal :: number
  taxRate :: "number option"
  taxAmount :: "number option"
  total :: number

record IInvoiceDiscount =
  type :: InvoiceDiscountType
  val :: number
  amount :: number

text \<open>An entry of \<open>payments\<close> on an invoice: it has a date and an amount, and no status.\<close>

record IInvoicePayment =
  date :: Date
  amount :: number

record IInvoice =
  status :: InvoiceStatus
  dueDate :: Date
  items :: "IInvoiceItem list"
  subtotal :: number
  totalTax :: number
  shippingCost :: "number option"
  otherCharges :: "number option"
  discount :: "IInvoiceDiscount option"
  total :: number
  currency :: string
  exchangeRate :: "number option"
  totalInEuro :: "number option"
  paidAmount :: number
  outstandingAmount :: number
  payments :: "IInvoicePayment list option"

text \<open>
  What the callback of the first \<open>this.items.reduce\<close> does to its item: the subtotal,
  the tax amount when \<open>taxRate\<close> is truthy (a stored \<open>taxAmount\<close> is kept otherwise), the
  total.
\<close>

definition invoice_item_update :: "IInvoiceItem \<Rightarrow> IInvoiceItem" where
  "invoice_item_update item =
     (let i1 = item\<lparr>IInvoiceItem.subtotal := IInvoiceItem.quantity item * IInvoiceItem.unitPrice item\<rparr>;
          i2 = (case taxRate i1 of
                  None \<Rightarrow> i1
                | Some r \<Rightarrow>
                    if r \<noteq> 0 then i1\<lparr>taxAmount := Some (IInvoiceItem.subtotal i1 * (r / 100))\<rparr>
                    else i1)
      in i2\<lparr>IInvoiceItem.total := IInvoiceItem.subtotal i2 + or0 (taxAmount i2)\<rparr>)"

text \<open>The first \<open>reduce\<close>: the items as rewritten and the sum of their subtotals.\<close>

fun invoice_items_reduce :: "IInvoiceItem list \<Rightarrow> number \<Rightarrow> IInvoiceItem list \<times> number" where
  "invoice_items_reduce [] s = ([], s)"
| "invoice_items_reduce (item # rest) s =
     (let item' = invoice_item_update item in
        (case invoice_items_reduce rest (s + IInvoiceItem.subtotal item') of
           (rest', s') \<Rightarrow> (item' # rest', s')))"

text \<open>\<open>this.payments?.reduce((sum, p) => sum + p.amount, 0) || 0\<close>\<close>

definition invoicePaid :: "IInvoicePayment list option \<Rightarrow> number" where
  "invoicePaid ps =
     (case ps of None \<Rightarrow> 0 | Some l \<Rightarrow> foldl (\<lambda>s p. s + IInvoicePayment.amount p) 0 l)"

text \<open>
  \<open>InvoiceSchema.methods.calculateTotals\<close>, one definition for each commented block of
  the method, in the order of the source.
\<close>

text \<open>``Calculate subtotal''.\<close>

definition invoiceSubtotal :: "'a IInvoice_scheme \<Rightarrow> 'a IInvoice_scheme" where
  "invoiceSubtotal invoice =
     (case invoice_items_reduce (IInvoice.items invoice) 0 of
        (items', sub) \<Rightarrow> invoice\<lparr>IInvoice.items := items', IInvoice.subtotal := sub\<rparr>)"

text \<open>``Calculate tax''.\<close>

definition invoiceTax :: "'a IInvoice_scheme \<Rightarrow> 'a IInvoice_scheme" where
  "invoiceTax invoice =
     invoice\<lparr>totalTax := foldl (\<lambda>s item. s + or0 (taxAmount item)) 0 (IInvoice.items invoice)\<rparr>"

text \<open>
  The local variable \<open>discountAmount\<close> after ``Apply discount''. The block under
  \<open>if (this.discount)\<close> always runs: on an invoice without discount the type is not
  \<open>'PERCENTAGE'\<close> and \<open>discountAmount = this.discount.value\<close> makes it \<open>undefined\<close>.
\<close>

definition discountAmount :: "'a IInvoice_scheme \<Rightarrow> number option" where
  "discountAmount invoice =
     (case IInvoice.discount invoice of
        None \<Rightarrow> None
      | Some d \<Rightarrow>
          if IInvoiceDiscount.type d = InvoiceDiscountType.PERCENTAGE
          then Some (IInvoice.subtotal invoice * (IInvoiceDiscount.val d / 100))
          else Some (IInvoiceDiscount.val d))"

text \<open>
  ``Apply discount'' and ``Calculate total''. \<open>this.discount.amount = discountAmount\<close>
  writes the amount of a discount that is there and leaves an absent one absent; the
  assignment to \<open>this.total\<close> is refused when \<open>discountAmount\<close> is \<open>undefined\<close>, the
  difference being \<open>NaN\<close> then.
\<close>

definition invoiceDiscountTotal :: "'a IInvoice_scheme \<Rightarrow> 'a IInvoice_scheme" where
  "invoiceDiscountTotal invoice =
     (let da = discountAmount invoice;
          v = (case (IInvoice.discount invoice, da) of
                 (Some d, Some x) \<Rightarrow>
                   invoice\<lparr>IInvoice.discount := Some (d\<lparr>IInvoiceDiscount.amount := x\<rparr>)\<rparr>
               | _ \<Rightarrow> invoice)
      in v\<lparr>IInvoice.total :=
             assign
               (js_add
                  (js_add (js_sub (Num (IInvoice.subtotal v + totalTax v)) (of_undefined da))
                     (Num (or0 (IInvoice.shippingCost v))))
                  (Num (or0 (otherCharges v))))
               (IInvoice.total v)\<rparr>)"

text \<open>``Calculate paid and outstanding''.\<close>

definition invoicePaidOutstanding :: "'a IInvoice_scheme \<Rightarrow> 'a IInvoice_scheme" where
  "invoicePaidOutstanding invoice =
     (let v = invoice\<lparr>paidAmount := invoicePaid (IInvoice.payments invoice)\<rparr>
      in v\<lparr>outstandingAmount := IInvoice.total v - paidAmount v\<rparr>)"

text \<open>``Convert to Euro if needed''.\<close>

definition invoiceToEuro :: "'a IInvoice_scheme \<Rightarrow> 'a IInvoice_scheme" where
  "invoiceToEuro invoice =
     (if currency invoice \<noteq> ''EUR'' \<and> truthy (exchangeRate invoice)
      then invoice\<lparr>totalInEuro := Some (IInvoice.total invoice / or0 (exchangeRate invoice))\<rparr>
      else if currency invoice = ''EUR'' then invoice\<lparr>totalInEuro := Some (IInvoice.total invoice)\<rparr>
      else invoice)"

definition Invoice_calculateTotals :: "'a IInvoice_scheme \<Rightarrow> 'a IInvoice_scheme" where
  "Invoice_calculateTotals invoice =
     invoiceToEuro (invoicePaidOutstanding (invoiceDiscountTotal (invoiceTax (invoiceSubtotal invoice))))"

text \<open>
  \<open>InvoiceSchema.pre('save')\<close> at the time \<open>now\<close>: the totals, then the status. (The
  hook first fills a missing \<open>invoiceNumber\<close>, which the rest does not read.)
\<close>

definition Invoice_pre_save :: "Date \<Rightarrow> 'a IInvoice_scheme \<Rightarrow> 'a IInvoice_scheme" where
  "Invoice_pre_save now invoice =
     (let v = Invoice_calculateTotals invoice in
        if outstandingAmount v \<le> 0 then v\<lparr>IInvoice.status := PAID\<rparr>
        else if paidAmount v > 0 then v\<lparr>IInvoice.status := InvoiceStatus.PARTIALLY_PAID\<rparr>
        else if now > dueDate v \<and> IInvoice.status v \<noteq> InvoiceStatus.CANCELLED
             then v\<lparr>IInvoice.status := OVERDUE\<rparr>
        else v)"

text \<open>\<open>InvoiceSchema.methods.markAsPaid\<close>.\<close>

definition markAsPaid :: "'a IInvoice_scheme \<Rightarrow> 'a IInvoice_scheme" where
  "markAsPaid invoice =
     invoice\<lparr>paidAmount := IInvoice.total invoice, outstandingAmount := 0, IInvoice.status := PAID\<rparr>"

section \<open>FinancialSchema: expenses and exchange rates\<close>

record IExchangeRate =
  fromCurrency :: string
  toCurrency :: string
  rate :: number
  date :: Date
  validFrom :: Date
  validTo :: "Date option"
  isActive :: bool

text \<open>
  \<open>amount / rate.rate\<close> is the one division of these schemas that no truthiness test
  guards, and the schema allows a rate of \<open>0\<close>. JavaScript then gives \<open>Infinity\<close> or
  \<open>-Infinity\<close> for an amount other than \<open>0\<close>, which a \<open>Number\<close> path stores, and \<open>NaN\<close>
  for \<open>0 / 0\<close>, which it refuses: \<open>None\<close> is that \<open>NaN\<close> here.
\<close>

datatype quotient = Finite number | PosInfinity | NegInfinity

definition js_divide :: "number \<Rightarrow> number \<Rightarrow> quotient option" where
  "js_divide a b =
     (if b \<noteq> 0 then Some (Finite (a / b))
      else if a = 0 then None
      else if 0 < a then Some PosInfinity
      else Some NegInfinity)"

text \<open>
  The schema requires \<open>amountInEuro\<close>, so on a validated expense the field holds what the
  caller stored; the hook is modelled on any document, the field set or not.
\<close>

record IExpense =
  amount :: number
  currency :: string
  amountInEuro :: "quotient option"
  expenseDate :: Date

text \<open>The filter of the query \<open>ExchangeRate.findOne({...})\<close> of the expense hook.\<close>

definition rate_matches :: "'a IExpense_scheme \<Rightarrow> IExchangeRate \<Rightarrow> bool" where
  "rate_matches e r =
     (fromCurrency r = IExpense.currency e \<and> toCurrency r = ''EUR''
      \<and> IExchangeRate.date r \<le> expenseDate e \<and> isActive r)"

text \<open>
  \<open>.sort({ date: -1 })\<close> and the first document: a document of greatest \<open>date\<close>. (The
  unique index on currency pair and date leaves one such document among the matches.)
\<close>

fun latest :: "IExchangeRate list \<Rightarrow> IExchangeRate option" where
  "latest [] = None"
| "latest (r # rs) =
     (case latest rs of
        None \<Rightarrow> Some r
      | Some s \<Rightarrow> if IExchangeRate.date r < IExchangeRate.date s then Some s else Some r)"

definition findOne :: "IExchangeRate list \<Rightarrow> 'a IExpense_scheme \<Rightarrow> IExchangeRate option" where
  "findOne coll e = latest (filter (rate_matches e) coll)"

text \<open>
  \<open>ExpenseSchema.pre('save')\<close>, the conversion to euro, over the collection \<open>coll\<close> of
  exchange rates. (The hook goes on to set \<open>nextDueDate\<close> of a recurring expense.)
\<close>

definition Expense_pre_save :: "IExchangeRate list \<Rightarrow> 'a IExpense_scheme \<Rightarrow> 'a IExpense_scheme" where
  "Expense_pre_save coll e =
     (if IExpense.currency e \<noteq> ''EUR''
      then (case findOne coll e of
              Some r \<Rightarrow>
                (case js_divide (IExpense.amount e) (rate r) of
                   Some q \<Rightarrow> e\<lparr>amountInEuro := Some q\<rparr>
                 | None \<Rightarrow> e)
            | None \<Rightarrow> e)
      else e\<lparr>amountInEuro := Some (Finite (IExpense.amount e))\<rparr>)"

section \<open>InventorySchema: batches\<close>

datatype Unit = KG | PIECES | BALES | CONTAINERS

record IBatch =
  receivedQuantity :: "number option"
  unit :: Unit
  purchasePrice :: number
  currency :: string
  shippingCost :: "number option"
  customsDuty :: "number option"
  otherCosts :: "number option"
  totalCost :: "number option"
  costPerKg :: "number option"
  orderDate :: Date

text \<open>
  \<open>BatchSchema.pre('save')\<close>, the cost computation. (The hook also fills \<open>batchNumber\<close>
  and the sorting productivity, which read and write none of these fields.)
\<close>

definition Batch_pre_save :: "'a IBatch_scheme \<Rightarrow> 'a IBatch_scheme" where
  "Batch_pre_save b =
     (if purchasePrice b \<noteq> 0
      then (let b1 = b\<lparr>totalCost := Some (purchasePrice b + or0 (IBatch.shippingCost b)
                                            + or0 (customsDuty b) + or0 (otherCosts b))\<rparr>
            in if truthy (receivedQuantity b1) \<and> unit b1 = KG
               then b1\<lparr>costPerKg := Some (or0 (totalCost b1) / or0 (receivedQuantity b1))\<rparr>
               else b1)
      else b)"

section \<open>The specification's wording, for comparison\<close>

text \<open>
  The paid amount as the specification words it: the amounts of the \<open>COMPLETED\<close> events
  minus the amounts of the \<open>REFUNDED\<close> events.
\<close>

definition spec_paidAmount :: "IPayment list \<Rightarrow> number" where
  "spec_paidAmount ps =
     sum_list (map IPayment.amount (filter (\<lambda>p. IPayment.status p = PaymentStatus.COMPLETED) ps))
     - sum_list (map IPayment.amount (filter (\<lambda>p. IPayment.status p = PaymentStatus.REFUNDED) ps))"


text \<open>
  The validity interval of the specification: the rate is valid at \<open>asOf\<close> when
  \<open>validFrom \<le> asOf\<close> and \<open>validTo\<close> is absent or later than \<open>asOf\<close>.
\<close>

definition spec_valid_at :: "IExchangeRate \<Rightarrow> Date \<Rightarrow> bool" where
  "spec_valid_at r asOf =
     (validFrom r \<le> asOf \<and> (case validTo r of None \<Rightarrow> True | Some t \<Rightarrow> asOf < t))"

section \<open>Documents to evaluate the methods on\<close>

text \<open>
  Documents as a caller builds them before the first save: the inputs given, every derived
  field still \<open>0\<close> or absent. An invoice takes the total that the caller stored.
\<close>

definition new_item :: "number \<Rightarrow> number \<Rightarrow> IDiscount option \<Rightarrow> number option \<Rightarrow> IOrderItem" where
  "new_item price qty d t =
     \<lparr>IOrderItem.unitPrice = price, IOrderItem.quantity = qty, IOrderItem.subtotal = 0,
      IOrderItem.discount = d, tax = t, IOrderItem.total = 0\<rparr>"

definition new_discount :: "DiscountType \<Rightarrow> number \<Rightarrow> IDiscount" where
  "new_discount ty v = \<lparr>IDiscount.type = ty, IDiscount.val = v, IDiscount.amount = 0\<rparr>"

definition new_payment :: "PaymentStatus \<Rightarrow> number \<Rightarrow> IPayment" where
  "new_payment st a = \<lparr>IPayment.status = st, IPayment.amount = a, refundAmount = None\<rparr>"

definition new_order ::
  "IOrderItem list \<Rightarrow> IDiscount list option \<Rightarrow> number \<Rightarrow> IPayment list \<Rightarrow> PaymentStatus \<Rightarrow> IOrder" where
  "new_order its ds shipping ps st =
     \<lparr>IOrder.items = its, totalItems = 0, totalQuantity = 0, IOrder.subtotal = 0,
      discountTotal = 0, taxTotal = 0, IOrder.shippingCost = shipping, handlingFee = Some 0,
      IOrder.total = 0, discounts = ds, paymentStatus = st, IOrder.payments = ps,
      totalPaid = 0, balanceDue = 0\<rparr>"

definition new_invoice_item :: "number \<Rightarrow> number \<Rightarrow> number option \<Rightarrow> IInvoiceItem" where
  "new_invoice_item qty price r =
     \<lparr>IInvoiceItem.quantity = qty, IInvoiceItem.unitPrice = price, IInvoiceItem.subtotal = 0,
      taxRate = r, taxAmount = None, IInvoiceItem.total = 0\<rparr>"

definition new_invoice ::
  "InvoiceStatus \<Rightarrow> Date \<Rightarrow> IInvoiceItem list \<Rightarrow> IInvoiceDiscount option \<Rightarrow> number
     \<Rightarrow> IInvoicePayment list option \<Rightarrow> IInvoice" where
  "new_invoice st due its d tot ps =
     \<lparr>IInvoice.status = st, dueDate = due, IInvoice.items = its, IInvoice.subtotal = 0,
      totalTax = 0, IInvoice.shippingCost = None, otherCharges = None, IInvoice.discount = d,
      IInvoice.total = tot, IInvoice.currency = ''EUR'', exchangeRate = None, totalInEuro = None,
      paidAmount = 0, outstandingAmount = 0, IInvoice.payments = ps\<rparr>"


definition new_batch :: "Unit \<Rightarrow> number \<Rightarrow> number option \<Rightarrow> number option \<Rightarrow> IBatch" where
  "new_batch u price shipping received =
     \<lparr>receivedQuantity = received, unit = u, purchasePrice = price, IBatch.currency = ''EUR'',
      IBatch.shippingCost = shipping, customsDuty = None, otherCosts = None, totalCost = None,
      costPerKg = None, orderDate = 0\<rparr>"

text \<open>
  A USD to EUR rate dated day 1 whose validity ended on day 5, still flagged active, and
  an expense of 100 USD on day 10. The schema requires \<open>amountInEuro\<close>, so the caller has
  stored a number there before the save: here the amount itself.
\<close>

definition rate_expired :: IExchangeRate where
  "rate_expired =
     \<lparr>fromCurrency = ''USD'', toCurrency = ''EUR'', rate = 2, IExchangeRate.date = 1,
      validFrom = 1, validTo = Some 5, isActive = True\<rparr>"

definition expense_usd :: IExpense where
  "expense_usd =
     \<lparr>IExpense.amount = 100, IExpense.currency = ''USD'', amountInEuro = Some (Finite 100),
      expenseDate = 10\<rparr>"

section \<open>How \<open>calculateTotals\<close> writes each field of an order\<close>

lemma setAmount_idem: "setAmount b (setAmount b d) = setAmount b d"
  by (simp add: setAmount_def)

lemma item_step_again:
  "item_step (fst (item_step item a)) b = (fst (item_step item a), snd (item_step item b))"
  by (cases "IOrderItem.discount item")
     (simp_all add: item_step_def Let_def setAmount_idem itemDiscountAmount_def itemDiscountField_def)

lemma items_forEach_again:
  "items_forEach (fst (items_forEach xs a)) b = (fst (items_forEach xs a), snd (items_forEach xs b))"
proof (induction xs arbitrary: a b)
  case Nil
  show ?case by simp
next
  case (Cons x xs)
  show ?case
    by (simp add: split_beta item_step_again Cons.IH)
qed

lemma discounts_forEach_again:
  "discounts_forEach s (fst (discounts_forEach s ds dt)) dt'
     = (fst (discounts_forEach s ds dt), snd (discounts_forEach s ds dt'))"
  by (induction ds arbitrary: dt dt') (simp_all add: split_beta Let_def setAmount_idem)

lemma items_forEach_length: "length (fst (items_forEach xs a)) = length xs"
  by (induction xs arbitrary: a) (simp_all add: split_beta)

lemma calcItemTotals_fields:
  "IOrder.items (calcItemTotals ord) = fst (items_forEach (IOrder.items ord) acc_init)"
  "IOrder.subtotal (calcItemTotals ord) = acc_subtotal (snd (items_forEach (IOrder.items ord) acc_init))"
  "totalQuantity (calcItemTotals ord) = acc_totalQuantity (snd (items_forEach (IOrder.items ord) acc_init))"
  "totalItems (calcItemTotals ord) = of_nat (length (IOrder.items ord))"
  "discountTotal (calcItemTotals ord) =
     assign (acc_discountTotal (snd (items_forEach (IOrder.items ord) acc_init))) (discountTotal ord)"
  "taxTotal (calcItemTotals ord) = acc_taxTotal (snd (items_forEach (IOrder.items ord) acc_init))"
  "IOrder.shippingCost (calcItemTotals ord) = IOrder.shippingCost ord"
  "handlingFee (calcItemTotals ord) = handlingFee ord"
  "IOrder.total (calcItemTotals ord) = IOrder.total ord"
  "discounts (calcItemTotals ord) = discounts ord"
  "paymentStatus (calcItemTotals ord) = paymentStatus ord"
  "IOrder.payments (calcItemTotals ord) = IOrder.payments ord"
  "totalPaid (calcItemTotals ord) = totalPaid ord"
  "balanceDue (calcItemTotals ord) = balanceDue ord"
  "IOrder.more (calcItemTotals ord) = IOrder.more ord"
  by (simp_all add: calcItemTotals_def split_beta items_forEach_length)

lemma applyOrderDiscounts_fields:
  "IOrder.items (applyOrderDiscounts ord) = IOrder.items ord"
  "IOrder.subtotal (applyOrderDiscounts ord) = IOrder.subtotal ord"
  "totalQuantity (applyOrderDiscounts ord) = totalQuantity ord"
  "totalItems (applyOrderDiscounts ord) = totalItems ord"
  "discountTotal (applyOrderDiscounts ord) =
     (case discounts ord of None \<Rightarrow> discountTotal ord
      | Some ds \<Rightarrow> snd (discounts_forEach (IOrder.subtotal ord) ds (discountTotal ord)))"
  "taxTotal (applyOrderDiscounts ord) = taxTotal ord"
  "IOrder.shippingCost (applyOrderDiscounts ord) = IOrder.shippingCost ord"
  "handlingFee (applyOrderDiscounts ord) = handlingFee ord"
  "IOrder.total (applyOrderDiscounts ord) = IOrder.total ord"
  "discounts (applyOrderDiscounts ord) =
     (case discounts ord of None \<Rightarrow> None
      | Some ds \<Rightarrow> Some (fst (discounts_forEach (IOrder.subtotal ord) ds (discountTotal ord))))"
  "paymentStatus (applyOrderDiscounts ord) = paymentStatus ord"
  "IOrder.payments (applyOrderDiscounts ord) = IOrder.payments ord"
  "totalPaid (applyOrderDiscounts ord) = totalPaid ord"
  "balanceDue (applyOrderDiscounts ord) = balanceDue ord"
  "IOrder.more (applyOrderDiscounts ord) = IOrder.more ord"
  by (simp_all add: applyOrderDiscounts_def split_beta split: option.splits)

lemma calcFinalTotal_fields:
  "IOrder.items (calcFinalTotal ord) = IOrder.items ord"
  "IOrder.subtotal (calcFinalTotal ord) = IOrder.subtotal ord"
  "totalQuantity (calcFinalTotal ord) = totalQuantity ord"
  "totalItems (calcFinalTotal ord) = totalItems ord"
  "discountTotal (calcFinalTotal ord) = discountTotal ord"
  "taxTotal (calcFinalTotal ord) = taxTotal ord"
  "IOrder.shippingCost (calcFinalTotal ord) = IOrder.shippingCost ord"
  "handlingFee (calcFinalTotal ord) = handlingFee ord"
  "IOrder.total (calcFinalTotal ord) =
     IOrder.subtotal ord - discountTotal ord + taxTotal ord + IOrder.shippingCost ord + or0 (handlingFee ord)"
  "discounts (calcFinalTotal ord) = discounts ord"
  "paymentStatus (calcFinalTotal ord) = paymentStatus ord"
  "IOrder.payments (calcFinalTotal ord) = IOrder.payments ord"
  "totalPaid (calcFinalTotal ord) = totalPaid ord"
  "balanceDue (calcFinalTotal ord) = balanceDue ord"
  "IOrder.more (calcFinalTotal ord) = IOrder.more ord"
  by (simp_all add: calcFinalTotal_def)

lemma calcPaymentTotals_fields:
  "IOrder.items (calcPaymentTotals ord) = IOrder.items ord"
  "IOrder.subtotal (calcPaymentTotals ord) = IOrder.subtotal ord"
  "totalQuantity (calcPaymentTotals ord) = totalQuantity ord"
  "totalItems (calcPaymentTotals ord) = totalItems ord"
  "discountTotal (calcPaymentTotals ord) = discountTotal ord"
  "taxTotal (calcPaymentTotals ord) = taxTotal ord"
  "IOrder.shippingCost (calcPaymentTotals ord) = IOrder.shippingCost ord"
  "handlingFee (calcPaymentTotals ord) = handlingFee ord"
  "IOrder.total (calcPaymentTotals ord) = IOrder.total ord"
  "discounts (calcPaymentTotals ord) = discounts ord"
  "paymentStatus (calcPaymentTotals ord) = paymentStatus ord"
  "IOrder.payments (calcPaymentTotals ord) = IOrder.payments ord"
  "totalPaid (calcPaymentTotals ord) = completedPaid (IOrder.payments ord)"
  "balanceDue (calcPaymentTotals ord) = IOrder.total ord - completedPaid (IOrder.payments ord)"
  "IOrder.more (calcPaymentTotals ord) = IOrder.more ord"
  by (simp_all add: calcPaymentTotals_def Let_def)

lemma updatePaymentStatus_fields:
  "IOrder.items (updatePaymentStatus ord) = IOrder.items ord"
  "IOrder.subtotal (updatePaymentStatus ord) = IOrder.subtotal ord"
  "totalQuantity (updatePaymentStatus ord) = totalQuantity ord"
  "totalItems (updatePaymentStatus ord) = totalItems ord"
  "discountTotal (updatePaymentStatus ord) = discountTotal ord"
  "taxTotal (updatePaymentStatus ord) = taxTotal ord"
  "IOrder.shippingCost (updatePaymentStatus ord) = IOrder.shippingCost ord"
  "handlingFee (updatePaymentStatus ord) = handlingFee ord"
  "IOrder.total (updatePaymentStatus ord) = IOrder.total ord"
  "discounts (updatePaymentStatus ord) = discounts ord"
  "paymentStatus (updatePaymentStatus ord) =
     (if balanceDue ord \<le> 0 then PaymentStatus.COMPLETED
      else if totalPaid ord > 0 then PaymentStatus.PARTIALLY_PAID else paymentStatus ord)"
  "IOrder.payments (updatePaymentStatus ord) = IOrder.payments ord"
  "totalPaid (updatePaymentStatus ord) = totalPaid ord"
  "balanceDue (updatePaymentStatus ord) = balanceDue ord"
  "IOrder.more (updatePaymentStatus ord) = IOrder.more ord"
  by (simp_all add: updatePaymentStatus_def)

lemmas stage_fields = calcItemTotals_fields applyOrderDiscounts_fields calcFinalTotal_fields
  calcPaymentTotals_fields updatePaymentStatus_fields

lemma Order_fields:
  "IOrder.items (Order_calculateTotals ord) = fst (items_forEach (IOrder.items ord) acc_init)"
  "IOrder.subtotal (Order_calculateTotals ord) = acc_subtotal (snd (items_forEach (IOrder.items ord) acc_init))"
  "totalQuantity (Order_calculateTotals ord) = acc_totalQuantity (snd (items_forEach (IOrder.items ord) acc_init))"
  "totalItems (Order_calculateTotals ord) = of_nat (length (IOrder.items ord))"
  "discountTotal (Order_calculateTotals ord) =
     (case discounts ord of
        None \<Rightarrow>
          assign (acc_discountTotal (snd (items_forEach (IOrder.items ord) acc_init))) (discountTotal ord)
      | Some ds \<Rightarrow> snd (discounts_forEach (acc_subtotal (snd (items_forEach (IOrder.items ord) acc_init))) ds
          (assign (acc_discountTotal (snd (items_forEach (IOrder.items ord) acc_init))) (discountTotal ord))))"
  "taxTotal (Order_calculateTotals ord) = acc_taxTotal (snd (items_forEach (IOrder.items ord) acc_init))"
  "IOrder.shippingCost (Order_calculateTotals ord) = IOrder.shippingCost ord"
  "handlingFee (Order_calculateTotals ord) = handlingFee ord"
  "discounts (Order_calculateTotals ord) =
     (case discounts ord of None \<Rightarrow> None
      | Some ds \<Rightarrow> Some (fst (discounts_forEach (acc_subtotal (snd (items_forEach (IOrder.items ord) acc_init))) ds
          (assign (acc_discountTotal (snd (items_forEach (IOrder.items ord) acc_init))) (discountTotal ord)))))"
  "IOrder.payments (Order_calculateTotals ord) = IOrder.payments ord"
  "totalPaid (Order_calculateTotals ord) = completedPaid (IOrder.payments ord)"
  "IOrder.more (Order_calculateTotals ord) = IOrder.more ord"
  by (simp_all add: Order_calculateTotals_def stage_fields cong: option.case_cong)

lemma Order_total:
  "IOrder.total (Order_calculateTotals ord) =
     IOrder.subtotal (Order_calculateTotals ord) - discountTotal (Order_calculateTotals ord)
     + taxTotal (Order_calculateTotals ord) + IOrder.shippingCost ord + or0 (handlingFee ord)"
  by (simp add: Order_calculateTotals_def stage_fields)

lemma Order_balanceDue:
  "balanceDue (Order_calculateTotals ord) =
     IOrder.total (Order_calculateTotals ord) - totalPaid (Order_calculateTotals ord)"
  by (simp add: Order_calculateTotals_def stage_fields)

lemma Order_paymentStatus:
  "paymentStatus (Order_calculateTotals ord) =
     (if balanceDue (Order_calculateTotals ord) \<le> 0 then PaymentStatus.COMPLETED
      else if totalPaid (Order_calculateTotals ord) > 0 then PaymentStatus.PARTIALLY_PAID
      else paymentStatus ord)"
  by (simp add: Order_calculateTotals_def stage_fields)


lemma Order_status_fields:
  "IOrder.total (Order_calculateTotals ord) =
     IOrder.subtotal (Order_calculateTotals ord) - discountTotal (Order_calculateTotals ord)
     + taxTotal (Order_calculateTotals ord) + IOrder.shippingCost (Order_calculateTotals ord)
     + or0 (handlingFee (Order_calculateTotals ord))"
  by (simp add: Order_total Order_fields)

text \<open>
  When the local \<open>discountTotal\<close> of the loop is a number, a second call changes nothing.
\<close>

lemma Order_calculateTotals_idem:
  assumes num: "acc_discountTotal (snd (items_forEach (IOrder.items ord) acc_init)) = Num r"
  shows "Order_calculateTotals (Order_calculateTotals ord) = Order_calculateTotals ord"
proof -
  let ?p = "Order_calculateTotals ord"
  have it: "IOrder.items (Order_calculateTotals ?p) = IOrder.items ?p"
    by (simp add: Order_fields items_forEach_again)
  have acc: "snd (items_forEach (IOrder.items ?p) acc_init) = snd (items_forEach (IOrder.items ord) acc_init)"
    by (simp add: Order_fields items_forEach_again)
  have sub: "IOrder.subtotal (Order_calculateTotals ?p) = IOrder.subtotal ?p"
    by (simp add: Order_fields(2) acc)
  have tq: "totalQuantity (Order_calculateTotals ?p) = totalQuantity ?p"
    by (simp add: Order_fields(3) acc)
  have ti: "totalItems (Order_calculateTotals ?p) = totalItems ?p"
    by (simp add: Order_fields(4) Order_fields(1) items_forEach_length)
  have tt: "taxTotal (Order_calculateTotals ?p) = taxTotal ?p"
    by (simp add: Order_fields(6) acc)
  have ds: "discounts (Order_calculateTotals ?p) = discounts ?p"
    by (cases "discounts ord") (simp_all add: Order_fields(9) acc num assign_def discounts_forEach_again)
  have dt: "discountTotal (Order_calculateTotals ?p) = discountTotal ?p"
    by (cases "discounts ord") (simp_all add: Order_fields(5,9) acc num assign_def discounts_forEach_again)
  have sc: "IOrder.shippingCost (Order_calculateTotals ?p) = IOrder.shippingCost ?p"
    by (simp add: Order_fields(7))
  have hf: "handlingFee (Order_calculateTotals ?p) = handlingFee ?p"
    by (simp add: Order_fields(8))
  have py: "IOrder.payments (Order_calculateTotals ?p) = IOrder.payments ?p"
    by (simp add: Order_fields(10))
  have tp: "totalPaid (Order_calculateTotals ?p) = totalPaid ?p"
    by (simp add: Order_fields(10,11))
  have mo: "IOrder.more (Order_calculateTotals ?p) = IOrder.more ?p"
    by (simp add: Order_fields(12))
  have to: "IOrder.total (Order_calculateTotals ?p) = IOrder.total ?p"
    unfolding Order_status_fields [of ?p] sub dt tt sc hf
    by (simp add: Order_status_fields [of ord])
  have bd: "balanceDue (Order_calculateTotals ?p) = balanceDue ?p"
    unfolding Order_balanceDue [of ?p] to tp by (simp add: Order_balanceDue [of ord])
  have ps: "paymentStatus (Order_calculateTotals ?p) = paymentStatus ?p"
    unfolding Order_paymentStatus [of ?p] bd tp
    by (simp add: Order_paymentStatus [of ord])
  show ?thesis
    by (rule IOrder.equality) (fact it ti tq sub dt tt sc hf to ds ps py tp bd mo)+
qed

section \<open>How \<open>calculateTotals\<close> writes each field of an invoice\<close>

lemma invoice_item_update_idem:
  "invoice_item_update (invoice_item_update item) = invoice_item_update item"
  by (cases "taxRate item") (simp_all add: invoice_item_update_def Let_def)

lemma invoice_items_reduce_fst: "fst (invoice_items_reduce xs s) = map invoice_item_update xs"
  by (induction xs arbitrary: s) (simp_all add: split_beta Let_def)

lemma invoice_items_reduce_snd:
  "snd (invoice_items_reduce xs s) = s + sum_list (map (\<lambda>i. IInvoiceItem.subtotal (invoice_item_update i)) xs)"
  by (induction xs arbitrary: s) (simp_all add: split_beta Let_def)

lemma invoice_item_update_subtotal:
  "IInvoiceItem.subtotal (invoice_item_update item) = IInvoiceItem.quantity item * IInvoiceItem.unitPrice item"
  by (cases "taxRate item") (simp_all add: invoice_item_update_def Let_def)

lemma invoiceSubtotal_fields:
  "IInvoice.status (invoiceSubtotal v) = IInvoice.status v"
  "dueDate (invoiceSubtotal v) = dueDate v"
  "IInvoice.items (invoiceSubtotal v) = map invoice_item_update (IInvoice.items v)"
  "IInvoice.subtotal (invoiceSubtotal v) =
     sum_list (map (\<lambda>i. IInvoiceItem.subtotal (invoice_item_update i)) (IInvoice.items v))"
  "totalTax (invoiceSubtotal v) = totalTax v"
  "IInvoice.shippingCost (invoiceSubtotal v) = IInvoice.shippingCost v"
  "otherCharges (invoiceSubtotal v) = otherCharges v"
  "IInvoice.discount (invoiceSubtotal v) = IInvoice.discount v"
  "IInvoice.total (invoiceSubtotal v) = IInvoice.total v"
  "IInvoice.currency (invoiceSubtotal v) = IInvoice.currency v"
  "exchangeRate (invoiceSubtotal v) = exchangeRate v"
  "totalInEuro (invoiceSubtotal v) = totalInEuro v"
  "paidAmount (invoiceSubtotal v) = paidAmount v"
  "outstandingAmount (invoiceSubtotal v) = outstandingAmount v"
  "IInvoice.payments (invoiceSubtotal v) = IInvoice.payments v"
  "IInvoice.more (invoiceSubtotal v) = IInvoice.more v"
  by (simp_all add: invoiceSubtotal_def split_beta invoice_items_reduce_fst invoice_items_reduce_snd)

lemma invoiceTax_fields:
  "IInvoice.status (invoiceTax v) = IInvoice.status v"
  "dueDate (invoiceTax v) = dueDate v"
  "IInvoice.items (invoiceTax v) = IInvoice.items v"
  "IInvoice.subtotal (invoiceTax v) = IInvoice.subtotal v"
  "totalTax (invoiceTax v) = foldl (\<lambda>s item. s + or0 (taxAmount item)) 0 (IInvoice.items v)"
  "IInvoice.shippingCost (invoiceTax v) = IInvoice.shippingCost v"
  "otherCharges (invoiceTax v) = otherCharges v"
  "IInvoice.discount (invoiceTax v) = IInvoice.discount v"
  "IInvoice.total (invoiceTax v) = IInvoice.total v"
  "IInvoice.currency (invoiceTax v) = IInvoice.currency v"
  "exchangeRate (invoiceTax v) = exchangeRate v"
  "totalInEuro (invoiceTax v) = totalInEuro v"
  "paidAmount (invoiceTax v) = paidAmount v"
  "outstandingAmount (invoiceTax v) = outstandingAmount v"
  "IInvoice.payments (invoiceTax v) = IInvoice.payments v"
  "IInvoice.more (invoiceTax v) = IInvoice.more v"
  by (simp_all add: invoiceTax_def)

lemma invoiceDiscountTotal_fields:
  "IInvoice.status (invoiceDiscountTotal v) = IInvoice.status v"
  "dueDate (invoiceDiscountTotal v) = dueDate v"
  "IInvoice.items (invoiceDiscountTotal v) = IInvoice.items v"
  "IInvoice.subtotal (invoiceDiscountTotal v) = IInvoice.subtotal v"
  "totalTax (invoiceDiscountTotal v) = totalTax v"
  "IInvoice.shippingCost (invoiceDiscountTotal v) = IInvoice.shippingCost v"
  "otherCharges (invoiceDiscountTotal v) = otherCharges v"
  "IInvoice.discount (invoiceDiscountTotal v) =
     (case IInvoice.discount v of None \<Rightarrow> None
      | Some d \<Rightarrow> Some (d\<lparr>IInvoiceDiscount.amount := or0 (discountAmount v)\<rparr>))"
  "IInvoice.total (invoiceDiscountTotal v) =
     (case discountAmount v of
        None \<Rightarrow> IInvoice.total v
      | Some da \<Rightarrow>
          IInvoice.subtotal v + totalTax v - da + or0 (IInvoice.shippingCost v) + or0 (otherCharges v))"
  "IInvoice.currency (invoiceDiscountTotal v) = IInvoice.currency v"
  "exchangeRate (invoiceDiscountTotal v) = exchangeRate v"
  "totalInEuro (invoiceDiscountTotal v) = totalInEuro v"
  "paidAmount (invoiceDiscountTotal v) = paidAmount v"
  "outstandingAmount (invoiceDiscountTotal v) = outstandingAmount v"
  "IInvoice.payments (invoiceDiscountTotal v) = IInvoice.payments v"
  "IInvoice.more (invoiceDiscountTotal v) = IInvoice.more v"
  by (simp_all add: invoiceDiscountTotal_def Let_def assign_def of_undefined_def discountAmount_def
        or0_def split: option.splits)

lemma invoicePaidOutstanding_fields:
  "IInvoice.status (invoicePaidOutstanding v) = IInvoice.status v"
  "dueDate (invoicePaidOutstanding v) = dueDate v"
  "IInvoice.items (invoicePaidOutstanding v) = IInvoice.items v"
  "IInvoice.subtotal (invoicePaidOutstanding v) = IInvoice.subtotal v"
  "totalTax (invoicePaidOutstanding v) = totalTax v"
  "IInvoice.shippingCost (invoicePaidOutstanding v) = IInvoice.shippingCost v"
  "otherCharges (invoicePaidOutstanding v) = otherCharges v"
  "IInvoice.discount (invoicePaidOutstanding v) = IInvoice.discount v"
  "IInvoice.total (invoicePaidOutstanding v) = IInvoice.total v"
  "IInvoice.currency (invoicePaidOutstanding v) = IInvoice.currency v"
  "exchangeRate (invoicePaidOutstanding v) = exchangeRate v"
  "totalInEuro (invoicePaidOutstanding v) = totalInEuro v"
  "paidAmount (invoicePaidOutstanding v) = invoicePaid (IInvoice.payments v)"
  "outstandingAmount (invoicePaidOutstanding v) = IInvoice.total v - invoicePaid (IInvoice.payments v)"
  "IInvoice.payments (invoicePaidOutstanding v) = IInvoice.payments v"
  "IInvoice.more (invoicePaidOutstanding v) = IInvoice.more v"
  by (simp_all add: invoicePaidOutstanding_def Let_def)

lemma invoiceToEuro_fields:
  "IInvoice.status (invoiceToEuro v) = IInvoice.status v"
  "dueDate (invoiceToEuro v) = dueDate v"
  "IInvoice.items (invoiceToEuro v) = IInvoice.items v"
  "IInvoice.subtotal (invoiceToEuro v) = IInvoice.subtotal v"
  "totalTax (invoiceToEuro v) = totalTax v"
  "IInvoice.shippingCost (invoiceToEuro v) = IInvoice.shippingCost v"
  "otherCharges (invoiceToEuro v) = otherCharges v"
  "IInvoice.discount (invoiceToEuro v) = IInvoice.discount v"
  "IInvoice.total (invoiceToEuro v) = IInvoice.total v"
  "IInvoice.currency (invoiceToEuro v) = IInvoice.currency v"
  "exchangeRate (invoiceToEuro v) = exchangeRate v"
  "totalInEuro (invoiceToEuro v) =
     (if IInvoice.currency v \<noteq> ''EUR'' \<and> truthy (exchangeRate v)
      then Some (IInvoice.total v / or0 (exchangeRate v))
      else if IInvoice.currency v = ''EUR'' then Some (IInvoice.total v) else totalInEuro v)"
  "paidAmount (invoiceToEuro v) = paidAmount v"
  "outstandingAmount (invoiceToEuro v) = outstandingAmount v"
  "IInvoice.payments (invoiceToEuro v) = IInvoice.payments v"
  "IInvoice.more (invoiceToEuro v) = IInvoice.more v"
  by (simp_all add: invoiceToEuro_def)

lemmas invoice_stage_fields = invoiceSubtotal_fields invoiceTax_fields invoiceDiscountTotal_fields
  invoicePaidOutstanding_fields invoiceToEuro_fields

lemma map_invoice_item_update_idem:
  "map invoice_item_update (map invoice_item_update xs) = map invoice_item_update xs"
  by (induction xs) (simp_all add: invoice_item_update_idem)

lemma Invoice_fields:
  "IInvoice.status (Invoice_calculateTotals v) = IInvoice.status v"
  "dueDate (Invoice_calculateTotals v) = dueDate v"
  "IInvoice.items (Invoice_calculateTotals v) = map invoice_item_update (IInvoice.items v)"
  "IInvoice.subtotal (Invoice_calculateTotals v) =
     sum_list (map (\<lambda>i. IInvoiceItem.subtotal (invoice_item_update i)) (IInvoice.items v))"
  "totalTax (Invoice_calculateTotals v) =
     foldl (\<lambda>s item. s + or0 (taxAmount item)) 0 (map invoice_item_update (IInvoice.items v))"
  "IInvoice.shippingCost (Invoice_calculateTotals v) = IInvoice.shippingCost v"
  "otherCharges (Invoice_calculateTotals v) = otherCharges v"
  "IInvoice.currency (Invoice_calculateTotals v) = IInvoice.currency v"
  "exchangeRate (Invoice_calculateTotals v) = exchangeRate v"
  "paidAmount (Invoice_calculateTotals v) = invoicePaid (IInvoice.payments v)"
  "IInvoice.payments (Invoice_calculateTotals v) = IInvoice.payments v"
  "IInvoice.more (Invoice_calculateTotals v) = IInvoice.more v"
  by (simp_all add: Invoice_calculateTotals_def invoice_stage_fields)

lemma Invoice_discount:
  "IInvoice.discount (Invoice_calculateTotals v) =
     (case IInvoice.discount v of None \<Rightarrow> None
      | Some d \<Rightarrow> Some (d\<lparr>IInvoiceDiscount.amount :=
          (if IInvoiceDiscount.type d = InvoiceDiscountType.PERCENTAGE
           then IInvoice.subtotal (Invoice_calculateTotals v) * (IInvoiceDiscount.val d / 100)
           else IInvoiceDiscount.val d)\<rparr>))"
  by (cases "IInvoice.discount v")
     (simp_all add: Invoice_calculateTotals_def invoice_stage_fields discountAmount_def or0_def)

text \<open>The total of an invoice without discount is the stored one.\<close>

lemma Invoice_total:
  "IInvoice.total (Invoice_calculateTotals v) =
     (case IInvoice.discount (Invoice_calculateTotals v) of
        None \<Rightarrow> IInvoice.total v
      | Some d \<Rightarrow>
          IInvoice.subtotal (Invoice_calculateTotals v) + totalTax (Invoice_calculateTotals v)
          - IInvoiceDiscount.amount d
          + or0 (IInvoice.shippingCost (Invoice_calculateTotals v))
          + or0 (otherCharges (Invoice_calculateTotals v)))"
  by (cases "IInvoice.discount v")
     (simp_all add: Invoice_calculateTotals_def invoice_stage_fields discountAmount_def or0_def)

lemma Invoice_outstanding:
  "outstandingAmount (Invoice_calculateTotals v) =
     IInvoice.total (Invoice_calculateTotals v) - paidAmount (Invoice_calculateTotals v)"
  by (simp add: Invoice_calculateTotals_def invoice_stage_fields)

lemma Invoice_totalInEuro:
  "totalInEuro (Invoice_calculateTotals v) =
     (if IInvoice.currency v \<noteq> ''EUR'' \<and> truthy (exchangeRate v)
      then Some (IInvoice.total (Invoice_calculateTotals v) / or0 (exchangeRate v))
      else if IInvoice.currency v = ''EUR'' then Some (IInvoice.total (Invoice_calculateTotals v))
      else totalInEuro v)"
  by (simp add: Invoice_calculateTotals_def invoice_stage_fields)

lemma Invoice_calculateTotals_idem:
  "Invoice_calculateTotals (Invoice_calculateTotals v) = Invoice_calculateTotals v"
proof -
  let ?p = "Invoice_calculateTotals v"
  have st: "IInvoice.status (Invoice_calculateTotals ?p) = IInvoice.status ?p"
    by (simp add: Invoice_fields(1))
  have dd: "dueDate (Invoice_calculateTotals ?p) = dueDate ?p"
    by (simp add: Invoice_fields(2))
  have it: "IInvoice.items (Invoice_calculateTotals ?p) = IInvoice.items ?p"
    unfolding Invoice_fields(3) map_invoice_item_update_idem ..
  have sub: "IInvoice.subtotal (Invoice_calculateTotals ?p) = IInvoice.subtotal ?p"
    by (simp add: Invoice_fields(3,4) invoice_item_update_idem o_def)
  have tx: "totalTax (Invoice_calculateTotals ?p) = totalTax ?p"
    unfolding Invoice_fields(5) Invoice_fields(3) map_invoice_item_update_idem ..
  have sc: "IInvoice.shippingCost (Invoice_calculateTotals ?p) = IInvoice.shippingCost ?p"
    by (simp add: Invoice_fields(6))
  have oc: "otherCharges (Invoice_calculateTotals ?p) = otherCharges ?p"
    by (simp add: Invoice_fields(7))
  have di: "IInvoice.discount (Invoice_calculateTotals ?p) = IInvoice.discount ?p"
    unfolding Invoice_discount [of ?p] sub
    by (cases "IInvoice.discount v") (simp_all add: Invoice_discount [of v])
  have to: "IInvoice.total (Invoice_calculateTotals ?p) = IInvoice.total ?p"
    unfolding Invoice_total [of ?p] sub tx di sc oc
    by (cases "IInvoice.discount (Invoice_calculateTotals v)") (simp_all add: Invoice_total [of v])
  have cu: "IInvoice.currency (Invoice_calculateTotals ?p) = IInvoice.currency ?p"
    by (simp add: Invoice_fields(8))
  have er: "exchangeRate (Invoice_calculateTotals ?p) = exchangeRate ?p"
    by (simp add: Invoice_fields(9))
  have pa: "paidAmount (Invoice_calculateTotals ?p) = paidAmount ?p"
    by (simp add: Invoice_fields(10,11))
  have py: "IInvoice.payments (Invoice_calculateTotals ?p) = IInvoice.payments ?p"
    by (simp add: Invoice_fields(11))
  have mo: "IInvoice.more (Invoice_calculateTotals ?p) = IInvoice.more ?p"
    by (simp add: Invoice_fields(12))
  have ou: "outstandingAmount (Invoice_calculateTotals ?p) = outstandingAmount ?p"
    unfolding Invoice_outstanding [of ?p] to pa by (simp add: Invoice_outstanding [of v])
  have eu: "totalInEuro (Invoice_calculateTotals ?p) = totalInEuro ?p"
    unfolding Invoice_totalInEuro [of ?p] to
    by (simp add: Invoice_totalInEuro [of v] Invoice_fields(8,9))
  show ?thesis
    by (rule IInvoice.equality) (fact st dd it sub tx sc oc di to cu er eu pa ou py mo)+
qed

section \<open>The accumulators as sums\<close>

lemma foldl_add_sum_list:
  "foldl (\<lambda>s p. s + f p) a xs = (a::rat) + sum_list (map f xs)"
  by (induction xs arbitrary: a) (simp_all add: add.assoc)

lemma completedPaid_sum:
  "completedPaid ps =
     sum_list (map IPayment.amount (filter (\<lambda>p. IPayment.status p = PaymentStatus.COMPLETED) ps))"
  by (simp add: completedPaid_def foldl_add_sum_list)

lemma invoicePaid_sum:
  "invoicePaid ps = (case ps of None \<Rightarrow> 0 | Some l \<Rightarrow> sum_list (map IInvoicePayment.amount l))"
  by (simp add: invoicePaid_def foldl_add_sum_list split: option.splits)

text \<open>What the loop body does to its item, whatever the accumulators.\<close>

lemma item_step_item:
  "IOrderItem.unitPrice (fst (item_step item a)) = IOrderItem.unitPrice item"
  "IOrderItem.quantity (fst (item_step item a)) = IOrderItem.quantity item"
  "IOrderItem.subtotal (fst (item_step item a)) = IOrderItem.unitPrice item * IOrderItem.quantity item"
  "IOrderItem.discount (fst (item_step item a)) =
     map_option (setAmount (IOrderItem.unitPrice item * IOrderItem.quantity item)) (IOrderItem.discount item)"
  "tax (fst (item_step item a)) = tax item"
  "IOrderItem.total (fst (item_step item a)) =
     IOrderItem.subtotal (fst (item_step item a)) - itemDiscountAmount (fst (item_step item a))
     + or0 (tax item)"
  by (cases "IOrderItem.discount item"; simp add: item_step_def Let_def itemDiscountAmount_def)+






lemma discounts_forEach_fst: "fst (discounts_forEach s ds dt) = map (setAmount s) ds"
  by (induction ds arbitrary: dt) (simp_all add: split_beta Let_def)






lemma Order_doc_discounts:
  "discounts (Order_calculateTotals ord) =
     map_option (map (setAmount (IOrder.subtotal (Order_calculateTotals ord)))) (discounts ord)"
  by (cases "discounts ord") (simp_all add: Order_fields discounts_forEach_fst)

lemma setAmount_amount:
  "IDiscount.amount (setAmount b d) =
     (if IDiscount.type d = DiscountType.PERCENTAGE then b * (IDiscount.val d / 100) else IDiscount.val d)"
  "IDiscount.type (setAmount b d) = IDiscount.type d"
  "IDiscount.val (setAmount b d) = IDiscount.val d"
  by (simp_all add: setAmount_def)

lemma Order_doc_discount_amounts:
  assumes "d \<in> set (orderDiscounts (Order_calculateTotals ord))"
  shows "IDiscount.amount d =
           (if IDiscount.type d = DiscountType.PERCENTAGE
            then IOrder.subtotal (Order_calculateTotals ord) * (IDiscount.val d / 100)
            else IDiscount.val d)"
proof -
  from assms obtain d0 where "d = setAmount (IOrder.subtotal (Order_calculateTotals ord)) d0"
    unfolding orderDiscounts_def Order_doc_discounts by (cases "discounts ord") auto
  then show ?thesis by (simp add: setAmount_amount)
qed


lemma invoice_subtotal_sum:
  "IInvoice.subtotal (Invoice_calculateTotals v) =
     sum_list (map IInvoiceItem.subtotal (IInvoice.items (Invoice_calculateTotals v)))"
  by (simp add: Invoice_fields o_def)

section \<open>The invoice hook, the line items, the product counters\<close>

lemma Invoice_pre_save_fields:
  "paidAmount (Invoice_pre_save now v) = paidAmount (Invoice_calculateTotals v)"
  "outstandingAmount (Invoice_pre_save now v) = outstandingAmount (Invoice_calculateTotals v)"
  "IInvoice.total (Invoice_pre_save now v) = IInvoice.total (Invoice_calculateTotals v)"
  "IInvoice.status (Invoice_pre_save now v) =
     (if outstandingAmount (Invoice_calculateTotals v) \<le> 0 then PAID
      else if paidAmount (Invoice_calculateTotals v) > 0 then InvoiceStatus.PARTIALLY_PAID
      else if now > dueDate v \<and> IInvoice.status v \<noteq> InvoiceStatus.CANCELLED then OVERDUE
      else IInvoice.status v)"
  by (simp_all add: Invoice_pre_save_def Let_def Invoice_fields)

lemma item_step_fst_indep: "fst (item_step item a) = fst (item_step item b)"
  by (rule IOrderItem.equality) (simp_all add: item_step_item itemDiscountAmount_def)

lemma items_forEach_fst: "fst (items_forEach xs a) = map (\<lambda>i. fst (item_step i acc_init)) xs"
proof (induction xs arbitrary: a)
  case Nil
  show ?case by simp
next
  case (Cons x xs)
  show ?case
    by (simp add: split_beta Cons.IH item_step_fst_indep [of x a acc_init])
qed

lemma Product_save_counters:
  assumes "Product_save p = Some p'"
  shows "availableQuantity p' = IProduct.quantity p' - reservedQuantity p'"
    and "IProduct.quantity p' = IProduct.quantity p" and "reservedQuantity p' = reservedQuantity p"
    and "0 \<le> reservedQuantity p'" and "0 \<le> IProduct.quantity p'"
    and "reservedQuantity p' \<le> IProduct.quantity p' \<longleftrightarrow> 0 \<le> availableQuantity p'"
  using assms
  by (auto simp: Product_save_def Product_validate_def Product_pre_save_def split: if_splits)

section \<open>The exchange rate the expense hook finds\<close>

lemma latest_None: "latest xs = None \<longleftrightarrow> xs = []"
  by (cases xs) (simp_all split: option.splits)

lemma latest_mem: "latest xs = Some r \<Longrightarrow> r \<in> set xs"
  by (induction xs arbitrary: r) (auto split: option.splits if_splits)

lemma latest_max: "latest xs = Some r \<Longrightarrow> s \<in> set xs \<Longrightarrow> IExchangeRate.date s \<le> IExchangeRate.date r"
proof (induction xs arbitrary: r)
  case Nil
  then show ?case by simp
next
  case (Cons x xs)
  show ?case
  proof (cases "latest xs")
    case None
    with Cons.prems show ?thesis by (simp add: latest_None)
  next
    case (Some m)
    with Cons.prems Cons.IH [OF Some] show ?thesis
      by (fastforce split: if_splits)
  qed
qed

lemma findOne_None: "findOne coll e = None \<longleftrightarrow> (\<forall>s \<in> set coll. \<not> rate_matches e s)"
  by (simp add: findOne_def latest_None filter_empty_conv)

lemma findOne_Some:
  assumes "findOne coll e = Some r"
  shows "r \<in> set coll" and "rate_matches e r"
    and "\<forall>s \<in> set coll. rate_matches e s \<longrightarrow> IExchangeRate.date s \<le> IExchangeRate.date r"
proof -
  from assms have l: "latest (filter (rate_matches e) coll) = Some r"
    by (simp add: findOne_def)
  from latest_mem [OF l] show "r \<in> set coll" and "rate_matches e r"
    by simp_all
  show "\<forall>s \<in> set coll. rate_matches e s \<longrightarrow> IExchangeRate.date s \<le> IExchangeRate.date r"
    using latest_max [OF l] by simp
qed

text \<open>Rewriting the validity interval of every rate changes no choice of the query.\<close>

lemma latest_map:
  assumes "\<And>s. IExchangeRate.date (h s) = IExchangeRate.date s"
  shows "latest (map h xs) = map_option h (latest xs)"
  by (induction xs) (auto simp: assms split: option.splits)

lemma rate_matches_validity:
  "rate_matches e (s\<lparr>validFrom := a, validTo := b\<rparr>) = rate_matches e s"
  by (simp add: rate_matches_def)

lemma findOne_validity:
  "findOne (map (\<lambda>s. s\<lparr>validFrom := f s, validTo := t s\<rparr>) coll) e
     = map_option (\<lambda>s. s\<lparr>validFrom := f s, validTo := t s\<rparr>) (findOne coll e)"
proof -
  have "filter (rate_matches e) (map (\<lambda>s. s\<lparr>validFrom := f s, validTo := t s\<rparr>) coll)
          = map (\<lambda>s. s\<lparr>validFrom := f s, validTo := t s\<rparr>) (filter (rate_matches e) coll)"
    by (induction coll) (simp_all add: rate_matches_validity)
  then show ?thesis
    by (simp add: findOne_def latest_map)
qed






section \<open>The product counters\<close>

text \<open>
  C1. After every save of a product, \<open>availableQuantity\<close> is \<open>quantity - reservedQuantity\<close>
  and \<open>0 \<le> reservedQuantity \<le> quantity\<close>. The save of a new product with quantity 1 and
  5 reserved units (\<open>availableQuantity\<close> at its default 1) passes the validators, and the
  hook then stores \<open>availableQuantity = -4\<close>: a document with more reserved than there
  is, which the schema's own \<open>min: 0\<close> on \<open>availableQuantity\<close> rejects.
\<close>

theorem C1_save_negative_available:
  "Product_save \<lparr>IProduct.quantity = 1, reservedQuantity = 5, availableQuantity = 1\<rparr>
     = Some \<lparr>IProduct.quantity = 1, reservedQuantity = 5, availableQuantity = - 4\<rparr>
   \<and> \<not> Product_validate \<lparr>IProduct.quantity = 1, reservedQuantity = 5, availableQuantity = - 4\<rparr>"
  by (simp add: Product_save_def Product_validate_def Product_pre_save_def)

section \<open>Recomputing totals\<close>

text \<open>
  C2. Recomputing the totals of a document twice leaves it as recomputing them once. On
  an order of one item without discount, with one order-level fixed discount of 10 and
  shipping 5, the first call of \<open>calculateTotals\<close> stores a discount total of 10 and a
  total of 95, and the second call a discount total of 20 and a total of 85: the local
  \<open>discountTotal\<close> is \<open>NaN\<close>, its assignment is refused, and the order-level discount is
  added onto the stored value at every call.
\<close>

theorem C2_second_call_changes_total:
  "discountTotal (Order_calculateTotals
      (new_order [new_item 100 1 None None] (Some [new_discount FIXED_AMOUNT 10]) 5 []
         PaymentStatus.PENDING)) = 10
   \<and> IOrder.total (Order_calculateTotals
      (new_order [new_item 100 1 None None] (Some [new_discount FIXED_AMOUNT 10]) 5 []
         PaymentStatus.PENDING)) = 95
   \<and> discountTotal (Order_calculateTotals (Order_calculateTotals
      (new_order [new_item 100 1 None None] (Some [new_discount FIXED_AMOUNT 10]) 5 []
         PaymentStatus.PENDING))) = 20
   \<and> IOrder.total (Order_calculateTotals (Order_calculateTotals
      (new_order [new_item 100 1 None None] (Some [new_discount FIXED_AMOUNT 10]) 5 []
         PaymentStatus.PENDING))) = 85"
  by code_simp

section \<open>The paid amount\<close>

text \<open>
  C3, as the specification states it, fails: an order with a \<open>COMPLETED\<close> payment of 30
  and a \<open>REFUNDED\<close> payment of 10 has \<open>totalPaid = 30\<close>, where completed minus refunded
  is 20.
\<close>

theorem C3_refunded_not_subtracted:
  "totalPaid (Order_calculateTotals
      (new_order [new_item 25 2 None None] None 0
         [new_payment PaymentStatus.COMPLETED 30, new_payment PaymentStatus.REFUNDED 10]
         PaymentStatus.PENDING)) = 30
   \<and> spec_paidAmount
        [new_payment PaymentStatus.COMPLETED 30, new_payment PaymentStatus.REFUNDED 10] = 20"
  by (simp add: Order_fields completedPaid_def spec_paidAmount_def new_order_def new_payment_def)

text \<open>
  C3, amended. The paid amount of an order is the sum of the amounts of its payments of
  status \<open>COMPLETED\<close>; a payment of any other status, \<open>REFUNDED\<close> included, contributes
  nothing. The paid amount of an invoice is the sum of the amounts of all its payments
  (they carry no status), \<open>0\<close> when it has none.
\<close>

theorem C3_paid_amount:
  "totalPaid (Order_calculateTotals ord) =
     sum_list (map IPayment.amount
       (filter (\<lambda>p. IPayment.status p = PaymentStatus.COMPLETED) (IOrder.payments ord)))
   \<and> paidAmount (Invoice_calculateTotals v) =
     (case IInvoice.payments v of None \<Rightarrow> 0 | Some l \<Rightarrow> sum_list (map IInvoicePayment.amount l))"
  by (simp add: Order_fields Invoice_fields completedPaid_sum invoicePaid_sum)

section \<open>The payment status\<close>

text \<open>
  C4, as the specification states it, fails: an order whose one payment of 50 was
  refunded, and whose stored status is still \<open>COMPLETED\<close>, keeps \<open>COMPLETED\<close> after the
  recomputation although nothing is paid and 50 is due; it is neither \<open>PENDING\<close> nor
  overdue.
\<close>

theorem C4_stale_status:
  "paymentStatus (Order_calculateTotals
      (new_order [new_item 25 2 None None] None 0 [new_payment PaymentStatus.REFUNDED 50]
         PaymentStatus.COMPLETED)) = PaymentStatus.COMPLETED
   \<and> totalPaid (Order_calculateTotals
      (new_order [new_item 25 2 None None] None 0 [new_payment PaymentStatus.REFUNDED 50]
         PaymentStatus.COMPLETED)) = 0
   \<and> balanceDue (Order_calculateTotals
      (new_order [new_item 25 2 None None] None 0 [new_payment PaymentStatus.REFUNDED 50]
         PaymentStatus.COMPLETED)) = 50"
  by code_simp

text \<open>
  C4, amended. After \<open>calculateTotals\<close> the paid total of an order is the sum of its
  \<open>COMPLETED\<close> payments and its balance due is its total minus the paid total; with
  \<open>balanceDue \<le> 0\<close> the order is \<open>COMPLETED\<close>; otherwise, with \<open>totalPaid > 0\<close>, it is
  \<open>PARTIALLY_PAID\<close>; otherwise its payment status is left as it was. After the invoice's
  save hook the paid amount of an invoice is the sum of its payments and its outstanding
  amount is its total minus the paid amount; with \<open>outstandingAmount \<le> 0\<close> the invoice is
  \<open>PAID\<close>; otherwise, with \<open>paidAmount > 0\<close>, it is \<open>PARTIALLY_PAID\<close>; otherwise, saved
  after its due date and not \<open>CANCELLED\<close>, it is \<open>OVERDUE\<close>; otherwise its status is left
  as it was.
\<close>

theorem C4_payment_status:
  "totalPaid (Order_calculateTotals ord) =
     sum_list (map IPayment.amount
       (filter (\<lambda>p. IPayment.status p = PaymentStatus.COMPLETED) (IOrder.payments ord)))
   \<and> balanceDue (Order_calculateTotals ord) =
     IOrder.total (Order_calculateTotals ord) - totalPaid (Order_calculateTotals ord)
   \<and> (balanceDue (Order_calculateTotals ord) \<le> 0 \<longrightarrow>
      paymentStatus (Order_calculateTotals ord) = PaymentStatus.COMPLETED)
   \<and> (0 < balanceDue (Order_calculateTotals ord) \<and> 0 < totalPaid (Order_calculateTotals ord) \<longrightarrow>
      paymentStatus (Order_calculateTotals ord) = PaymentStatus.PARTIALLY_PAID)
   \<and> (0 < balanceDue (Order_calculateTotals ord) \<and> totalPaid (Order_calculateTotals ord) \<le> 0 \<longrightarrow>
      paymentStatus (Order_calculateTotals ord) = paymentStatus ord)
   \<and> paidAmount (Invoice_pre_save now v) =
     (case IInvoice.payments v of None \<Rightarrow> 0 | Some l \<Rightarrow> sum_list (map IInvoicePayment.amount l))
   \<and> outstandingAmount (Invoice_pre_save now v) =
     IInvoice.total (Invoice_pre_save now v) - paidAmount (Invoice_pre_save now v)
   \<and> (outstandingAmount (Invoice_pre_save now v) \<le> 0 \<longrightarrow>
      IInvoice.status (Invoice_pre_save now v) = PAID)
   \<and> (0 < outstandingAmount (Invoice_pre_save now v) \<and> 0 < paidAmount (Invoice_pre_save now v) \<longrightarrow>
      IInvoice.status (Invoice_pre_save now v) = InvoiceStatus.PARTIALLY_PAID)
   \<and> (0 < outstandingAmount (Invoice_pre_save now v) \<and> paidAmount (Invoice_pre_save now v) \<le> 0
        \<and> dueDate v < now \<and> IInvoice.status v \<noteq> InvoiceStatus.CANCELLED \<longrightarrow>
      IInvoice.status (Invoice_pre_save now v) = OVERDUE)
   \<and> (0 < outstandingAmount (Invoice_pre_save now v) \<and> paidAmount (Invoice_pre_save now v) \<le> 0
        \<and> \<not> (dueDate v < now \<and> IInvoice.status v \<noteq> InvoiceStatus.CANCELLED) \<longrightarrow>
      IInvoice.status (Invoice_pre_save now v) = IInvoice.status v)"
proof -
  have paid: "totalPaid (Order_calculateTotals ord) =
     sum_list (map IPayment.amount
       (filter (\<lambda>p. IPayment.status p = PaymentStatus.COMPLETED) (IOrder.payments ord)))"
    by (simp add: Order_fields completedPaid_sum)
  have due: "balanceDue (Order_calculateTotals ord) =
     IOrder.total (Order_calculateTotals ord) - totalPaid (Order_calculateTotals ord)"
    by (rule Order_balanceDue)
  have ord: "paymentStatus (Order_calculateTotals ord) =
     (if balanceDue (Order_calculateTotals ord) \<le> 0 then PaymentStatus.COMPLETED
      else if totalPaid (Order_calculateTotals ord) > 0 then PaymentStatus.PARTIALLY_PAID
      else paymentStatus ord)"
    by (rule Order_paymentStatus)
  have ipaid: "paidAmount (Invoice_pre_save now v) =
     (case IInvoice.payments v of None \<Rightarrow> 0 | Some l \<Rightarrow> sum_list (map IInvoicePayment.amount l))"
    by (simp add: Invoice_pre_save_fields Invoice_fields invoicePaid_sum)
  have iout: "outstandingAmount (Invoice_pre_save now v) =
     IInvoice.total (Invoice_pre_save now v) - paidAmount (Invoice_pre_save now v)"
    by (simp add: Invoice_pre_save_fields Invoice_outstanding)
  have inv: "IInvoice.status (Invoice_pre_save now v) =
     (if outstandingAmount (Invoice_pre_save now v) \<le> 0 then PAID
      else if paidAmount (Invoice_pre_save now v) > 0 then InvoiceStatus.PARTIALLY_PAID
      else if now > dueDate v \<and> IInvoice.status v \<noteq> InvoiceStatus.CANCELLED then OVERDUE
      else IInvoice.status v)"
    by (simp only: Invoice_pre_save_fields)
  have st: "(balanceDue (Order_calculateTotals ord) \<le> 0 \<longrightarrow>
      paymentStatus (Order_calculateTotals ord) = PaymentStatus.COMPLETED)
   \<and> (0 < balanceDue (Order_calculateTotals ord) \<and> 0 < totalPaid (Order_calculateTotals ord) \<longrightarrow>
      paymentStatus (Order_calculateTotals ord) = PaymentStatus.PARTIALLY_PAID)
   \<and> (0 < balanceDue (Order_calculateTotals ord) \<and> totalPaid (Order_calculateTotals ord) \<le> 0 \<longrightarrow>
      paymentStatus (Order_calculateTotals ord) = paymentStatus ord)"
    unfolding ord by auto
  have ist: "(outstandingAmount (Invoice_pre_save now v) \<le> 0 \<longrightarrow>
      IInvoice.status (Invoice_pre_save now v) = PAID)
   \<and> (0 < outstandingAmount (Invoice_pre_save now v) \<and> 0 < paidAmount (Invoice_pre_save now v) \<longrightarrow>
      IInvoice.status (Invoice_pre_save now v) = InvoiceStatus.PARTIALLY_PAID)
   \<and> (0 < outstandingAmount (Invoice_pre_save now v) \<and> paidAmount (Invoice_pre_save now v) \<le> 0
        \<and> dueDate v < now \<and> IInvoice.status v \<noteq> InvoiceStatus.CANCELLED \<longrightarrow>
      IInvoice.status (Invoice_pre_save now v) = OVERDUE)
   \<and> (0 < outstandingAmount (Invoice_pre_save now v) \<and> paidAmount (Invoice_pre_save now v) \<le> 0
        \<and> \<not> (dueDate v < now \<and> IInvoice.status v \<noteq> InvoiceStatus.CANCELLED) \<longrightarrow>
      IInvoice.status (Invoice_pre_save now v) = IInvoice.status v)"
    unfolding inv by auto
  from paid due st ipaid iout ist show ?thesis
    by blast
qed

text \<open>
  C4, at a total of 50 (the order computes it from 2 units at 25, the invoice has it
  stored). With payments of 30 and 20 the paid amount is 50, the balance 0, the order
  \<open>COMPLETED\<close> and the invoice \<open>PAID\<close>; with the payment of 30 alone 20 is due and both
  are \<open>PARTIALLY_PAID\<close>; with no payment 50 is due, the order stays \<open>PENDING\<close>, and the
  invoice sent and due on day 10 is \<open>OVERDUE\<close> when saved on day 20 and stays \<open>SENT\<close> when
  saved on day 5.
\<close>

theorem C4_scenario_C:
  "totalPaid (Order_calculateTotals
      (new_order [new_item 25 2 None None] None 0
         [new_payment PaymentStatus.COMPLETED 30, new_payment PaymentStatus.COMPLETED 20]
         PaymentStatus.PENDING)) = 50
   \<and> balanceDue (Order_calculateTotals
      (new_order [new_item 25 2 None None] None 0
         [new_payment PaymentStatus.COMPLETED 30, new_payment PaymentStatus.COMPLETED 20]
         PaymentStatus.PENDING)) = 0
   \<and> paymentStatus (Order_calculateTotals
      (new_order [new_item 25 2 None None] None 0
         [new_payment PaymentStatus.COMPLETED 30, new_payment PaymentStatus.COMPLETED 20]
         PaymentStatus.PENDING)) = PaymentStatus.COMPLETED
   \<and> paidAmount (Invoice_pre_save 20
      (new_invoice SENT 10 [new_invoice_item 2 25 None] None 50
         (Some [\<lparr>IInvoicePayment.date = 1, IInvoicePayment.amount = 30\<rparr>,
                \<lparr>IInvoicePayment.date = 2, IInvoicePayment.amount = 20\<rparr>]))) = 50
   \<and> outstandingAmount (Invoice_pre_save 20
      (new_invoice SENT 10 [new_invoice_item 2 25 None] None 50
         (Some [\<lparr>IInvoicePayment.date = 1, IInvoicePayment.amount = 30\<rparr>,
                \<lparr>IInvoicePayment.date = 2, IInvoicePayment.amount = 20\<rparr>]))) = 0
   \<and> IInvoice.status (Invoice_pre_save 20
      (new_invoice SENT 10 [new_invoice_item 2 25 None] None 50
         (Some [\<lparr>IInvoicePayment.date = 1, IInvoicePayment.amount = 30\<rparr>,
                \<lparr>IInvoicePayment.date = 2, IInvoicePayment.amount = 20\<rparr>]))) = PAID
   \<and> balanceDue (Order_calculateTotals
      (new_order [new_item 25 2 None None] None 0 [new_payment PaymentStatus.COMPLETED 30]
         PaymentStatus.PENDING)) = 20
   \<and> paymentStatus (Order_calculateTotals
      (new_order [new_item 25 2 None None] None 0 [new_payment PaymentStatus.COMPLETED 30]
         PaymentStatus.PENDING)) = PaymentStatus.PARTIALLY_PAID
   \<and> outstandingAmount (Invoice_pre_save 20
      (new_invoice SENT 10 [new_invoice_item 2 25 None] None 50
         (Some [\<lparr>IInvoicePayment.date = 1, IInvoicePayment.amount = 30\<rparr>]))) = 20
   \<and> IInvoice.status (Invoice_pre_save 20
      (new_invoice SENT 10 [new_invoice_item 2 25 None] None 50
         (Some [\<lparr>IInvoicePayment.date = 1, IInvoicePayment.amount = 30\<rparr>]))) = InvoiceStatus.PARTIALLY_PAID
   \<and> balanceDue (Order_calculateTotals
      (new_order [new_item 25 2 None None] None 0 [] PaymentStatus.PENDING)) = 50
   \<and> paymentStatus (Order_calculateTotals
      (new_order [new_item 25 2 None None] None 0 [] PaymentStatus.PENDING)) = PaymentStatus.PENDING
   \<and> outstandingAmount (Invoice_pre_save 20
      (new_invoice SENT 10 [new_invoice_item 2 25 None] None 50 None)) = 50
   \<and> IInvoice.status (Invoice_pre_save 20
      (new_invoice SENT 10 [new_invoice_item 2 25 None] None 50 None)) = OVERDUE
   \<and> IInvoice.status (Invoice_pre_save 5
      (new_invoice SENT 10 [new_invoice_item 2 25 None] None 50 None)) = SENT"
proof -
  let ?o2 = "new_order [new_item 25 2 None None] None 0
         [new_payment PaymentStatus.COMPLETED 30, new_payment PaymentStatus.COMPLETED 20]
         PaymentStatus.PENDING"
  let ?o1 = "new_order [new_item 25 2 None None] None 0 [new_payment PaymentStatus.COMPLETED 30]
         PaymentStatus.PENDING"
  let ?o0 = "new_order [new_item 25 2 None None] None 0 [] PaymentStatus.PENDING"
  let ?v2 = "new_invoice SENT 10 [new_invoice_item 2 25 None] None 50
         (Some [\<lparr>IInvoicePayment.date = 1, IInvoicePayment.amount = 30\<rparr>,
                \<lparr>IInvoicePayment.date = 2, IInvoicePayment.amount = 20\<rparr>])"
  let ?v1 = "new_invoice SENT 10 [new_invoice_item 2 25 None] None 50
         (Some [\<lparr>IInvoicePayment.date = 1, IInvoicePayment.amount = 30\<rparr>])"
  let ?v0 = "new_invoice SENT 10 [new_invoice_item 2 25 None] None 50 None"
  have o2: "IOrder.total (Order_calculateTotals ?o2) = 50"
    "map IPayment.amount (filter (\<lambda>p. IPayment.status p = PaymentStatus.COMPLETED)
       (IOrder.payments ?o2)) = [30, 20]"
    by code_simp+
  have o1: "IOrder.total (Order_calculateTotals ?o1) = 50"
    "map IPayment.amount (filter (\<lambda>p. IPayment.status p = PaymentStatus.COMPLETED)
       (IOrder.payments ?o1)) = [30]"
    by code_simp+
  have o0: "IOrder.total (Order_calculateTotals ?o0) = 50"
    "map IPayment.amount (filter (\<lambda>p. IPayment.status p = PaymentStatus.COMPLETED)
       (IOrder.payments ?o0)) = []"
    "paymentStatus ?o0 = PaymentStatus.PENDING"
    by code_simp+
  have v2: "IInvoice.total (Invoice_pre_save 20 ?v2) = 50"
    "IInvoice.payments ?v2 = Some [\<lparr>IInvoicePayment.date = 1, IInvoicePayment.amount = 30\<rparr>,
                \<lparr>IInvoicePayment.date = 2, IInvoicePayment.amount = 20\<rparr>]"
    by code_simp+
  have v1: "IInvoice.total (Invoice_pre_save 20 ?v1) = 50"
    "IInvoice.payments ?v1 = Some [\<lparr>IInvoicePayment.date = 1, IInvoicePayment.amount = 30\<rparr>]"
    by code_simp+
  have v0: "IInvoice.total (Invoice_pre_save 20 ?v0) = 50" "IInvoice.total (Invoice_pre_save 5 ?v0) = 50"
    "IInvoice.payments ?v0 = None" "dueDate ?v0 = 10" "IInvoice.status ?v0 = SENT"
    by code_simp+
  from C4_payment_status [of ?o2 20 ?v2] C4_payment_status [of ?o1 20 ?v1]
    C4_payment_status [of ?o0 20 ?v0] C4_payment_status [of ?o0 5 ?v0]
  show ?thesis
    by (simp add: o2 o1 o0 v2 v1 v0)
qed

section \<open>Line items\<close>

text \<open>
  C5, as the specification states it, fails: on an order item of 2 units at 25 with a
  \<open>FIXED_AMOUNT\<close> discount of 100 the discount amount is 100, not the subtotal 50, and
  the item's total is \<open>-50\<close>.
\<close>

theorem C5_fixed_discount_not_clamped:
  "itemDiscountAmount
     (fst (item_step (new_item 25 2 (Some (new_discount FIXED_AMOUNT 100)) None) acc_init)) = 100
   \<and> IOrderItem.subtotal
     (fst (item_step (new_item 25 2 (Some (new_discount FIXED_AMOUNT 100)) None) acc_init)) = 50
   \<and> IOrderItem.total
     (fst (item_step (new_item 25 2 (Some (new_discount FIXED_AMOUNT 100)) None) acc_init)) = - 50"
  by code_simp

text \<open>
  C5, amended. \<open>calculateTotals\<close> rewrites every item of an order so: the subtotal is
  \<open>unitPrice * quantity\<close>; the amount of a discount is \<open>subtotal * value / 100\<close> for
  \<open>PERCENTAGE\<close> and the value itself for every other type; the tax is the amount stored
  on the item, not computed from a rate; the total is the subtotal minus the discount
  amount plus the tax, an absent discount or tax counting as \<open>0\<close>. It rewrites every item
  of an invoice so: the subtotal is \<open>quantity * unitPrice\<close>; the tax amount is
  \<open>subtotal * taxRate / 100\<close> when the rate is set and not \<open>0\<close>, and left as it was
  otherwise; the total is the subtotal plus the tax amount (an invoice item has no
  discount).
\<close>

theorem C5_line_items:
  "IOrder.items (Order_calculateTotals ord) = map (\<lambda>i. fst (item_step i acc_init)) (IOrder.items ord)
   \<and> IOrderItem.subtotal (fst (item_step item a)) = IOrderItem.unitPrice item * IOrderItem.quantity item
   \<and> IOrderItem.discount (fst (item_step item a)) =
       map_option
         (\<lambda>d. d\<lparr>IDiscount.amount :=
                  (if IDiscount.type d = DiscountType.PERCENTAGE
                   then IOrderItem.unitPrice item * IOrderItem.quantity item * (IDiscount.val d / 100)
                   else IDiscount.val d)\<rparr>)
         (IOrderItem.discount item)
   \<and> tax (fst (item_step item a)) = tax item
   \<and> IOrderItem.total (fst (item_step item a)) =
       IOrderItem.subtotal (fst (item_step item a)) - itemDiscountAmount (fst (item_step item a))
       + or0 (tax item)
   \<and> IInvoice.items (Invoice_calculateTotals v) = map invoice_item_update (IInvoice.items v)
   \<and> IInvoiceItem.subtotal (invoice_item_update it) = IInvoiceItem.quantity it * IInvoiceItem.unitPrice it
   \<and> taxAmount (invoice_item_update it) =
       (if truthy (taxRate it)
        then Some (IInvoiceItem.quantity it * IInvoiceItem.unitPrice it * (or0 (taxRate it) / 100))
        else taxAmount it)
   \<and> IInvoiceItem.total (invoice_item_update it) =
       IInvoiceItem.subtotal (invoice_item_update it) + or0 (taxAmount (invoice_item_update it))"
proof -
  have d: "IOrderItem.discount (fst (item_step item a)) =
       map_option
         (\<lambda>d. d\<lparr>IDiscount.amount :=
                  (if IDiscount.type d = DiscountType.PERCENTAGE
                   then IOrderItem.unitPrice item * IOrderItem.quantity item * (IDiscount.val d / 100)
                   else IDiscount.val d)\<rparr>)
         (IOrderItem.discount item)"
    by (cases "IOrderItem.discount item") (simp_all add: item_step_item setAmount_def)
  have t: "taxAmount (invoice_item_update it) =
       (if truthy (taxRate it)
        then Some (IInvoiceItem.quantity it * IInvoiceItem.unitPrice it * (or0 (taxRate it) / 100))
        else taxAmount it)"
    by (cases "taxRate it") (simp_all add: invoice_item_update_def Let_def truthy_def or0_def)
  have tot: "IInvoiceItem.total (invoice_item_update it) =
       IInvoiceItem.subtotal (invoice_item_update it) + or0 (taxAmount (invoice_item_update it))"
    by (cases "taxRate it") (simp_all add: invoice_item_update_def Let_def)
  show ?thesis
    using d t tot
    by (simp add: Order_fields(1) items_forEach_fst item_step_item Invoice_fields(3)
          invoice_item_update_subtotal)
qed

text \<open>
  C5, at 2 units at 25: the order item with a \<open>PERCENTAGE\<close> discount of 10 and a stored
  tax of 8.55 has subtotal 50, discount amount 5 and total 53.55; the invoice item with
  a tax rate of 19 has tax amount 9.5 and total 59.5.
\<close>

theorem C5_scenario_A:
  "IOrderItem.subtotal
     (fst (item_step (new_item 25 2 (Some (new_discount DiscountType.PERCENTAGE 10)) (Some (171 / 20)))
        acc_init)) = 50
   \<and> itemDiscountAmount
     (fst (item_step (new_item 25 2 (Some (new_discount DiscountType.PERCENTAGE 10)) (Some (171 / 20)))
        acc_init)) = 5
   \<and> IOrderItem.total
     (fst (item_step (new_item 25 2 (Some (new_discount DiscountType.PERCENTAGE 10)) (Some (171 / 20)))
        acc_init)) = 1071 / 20
   \<and> taxAmount (invoice_item_update (new_invoice_item 2 25 (Some 19))) = Some (19 / 2)
   \<and> IInvoiceItem.total (invoice_item_update (new_invoice_item 2 25 (Some 19))) = 119 / 2"
proof -
  let ?i = "new_item 25 2 (Some (new_discount DiscountType.PERCENTAGE 10)) (Some (171 / 20))"
  let ?j = "new_invoice_item 2 25 (Some 19)"
  have e1: "IOrderItem.unitPrice ?i = 25" "IOrderItem.quantity ?i = 2" "tax ?i = Some (171 / 20)"
    by (simp_all add: new_item_def)
  have e2: "itemDiscountAmount (fst (item_step ?i acc_init)) = 5"
    by code_simp
  have e3: "IInvoiceItem.quantity ?j = 2" "IInvoiceItem.unitPrice ?j = 25" "taxRate ?j = Some 19"
    by (simp_all add: new_invoice_item_def)
  from C5_line_items
    [of "new_order [] None 0 [] PaymentStatus.PENDING" ?i acc_init
        "new_invoice DRAFT 0 [] None 0 None" ?j]
  show ?thesis
    by (simp add: e1 e2 e3 truthy_def or0_def)
qed

section \<open>The aggregated total\<close>




section \<open>Currency conversion\<close>

text \<open>
  C7, as the specification states it, fails: with only a USD to EUR rate whose validity
  ended on day 5, the hook converts an expense of 100 USD on day 10 with that rate (to 50)
  and reports nothing; with no rate at all it reports nothing either and keeps the amount
  in euro that the caller stored.
\<close>

theorem C7_expired_rate_used:
  "Expense_pre_save [rate_expired] expense_usd = expense_usd\<lparr>amountInEuro := Some (Finite 50)\<rparr>
   \<and> \<not> spec_valid_at rate_expired (expenseDate expense_usd)
   \<and> Expense_pre_save [] expense_usd = expense_usd
   \<and> amountInEuro expense_usd = Some (Finite 100)"
  by (simp add: Expense_pre_save_def findOne_def rate_matches_def js_divide_def spec_valid_at_def
        rate_expired_def expense_usd_def)

text \<open>
  C7, amended. The save hook of an expense in euro copies the amount. The hook of an
  expense in another currency looks for the active rate from that currency to EUR of
  greatest \<open>date\<close> at or before the expense date; \<open>validFrom\<close> and \<open>validTo\<close> are not
  consulted. With such a rate other than \<open>0\<close> the amount in euro becomes the amount
  divided by the rate; with a rate of \<open>0\<close> it becomes infinite, or stays as it was when
  the amount is \<open>0\<close> too; with no rate the hook raises nothing and leaves the document as
  it was.
\<close>

theorem C7_expense_conversion:
  "(IExpense.currency e = ''EUR'' \<longrightarrow>
      Expense_pre_save coll e = e\<lparr>amountInEuro := Some (Finite (IExpense.amount e))\<rparr>)
   \<and> (IExpense.currency e \<noteq> ''EUR'' \<and> findOne coll e = None \<longrightarrow> Expense_pre_save coll e = e)
   \<and> (IExpense.currency e \<noteq> ''EUR'' \<and> findOne coll e = Some r \<and> rate r \<noteq> 0 \<longrightarrow>
      Expense_pre_save coll e = e\<lparr>amountInEuro := Some (Finite (IExpense.amount e / rate r))\<rparr>)
   \<and> (IExpense.currency e \<noteq> ''EUR'' \<and> findOne coll e = Some r \<and> rate r = 0
        \<and> 0 < IExpense.amount e \<longrightarrow>
      Expense_pre_save coll e = e\<lparr>amountInEuro := Some PosInfinity\<rparr>)
   \<and> (IExpense.currency e \<noteq> ''EUR'' \<and> findOne coll e = Some r \<and> rate r = 0
        \<and> IExpense.amount e < 0 \<longrightarrow>
      Expense_pre_save coll e = e\<lparr>amountInEuro := Some NegInfinity\<rparr>)
   \<and> (IExpense.currency e \<noteq> ''EUR'' \<and> findOne coll e = Some r \<and> rate r = 0
        \<and> IExpense.amount e = 0 \<longrightarrow>
      Expense_pre_save coll e = e)
   \<and> (findOne coll e = None \<longleftrightarrow> (\<forall>s \<in> set coll. \<not> rate_matches e s))
   \<and> (findOne coll e = Some r \<longrightarrow>
      r \<in> set coll \<and> fromCurrency r = IExpense.currency e \<and> toCurrency r = ''EUR''
      \<and> IExchangeRate.date r \<le> expenseDate e \<and> isActive r
      \<and> (\<forall>s \<in> set coll. rate_matches e s \<longrightarrow> IExchangeRate.date s \<le> IExchangeRate.date r))
   \<and> Expense_pre_save (map (\<lambda>s. s\<lparr>validFrom := f s, validTo := t s\<rparr>) coll) e
       = Expense_pre_save coll e"
proof (intro conjI)
  show "IExpense.currency e = ''EUR'' \<longrightarrow>
      Expense_pre_save coll e = e\<lparr>amountInEuro := Some (Finite (IExpense.amount e))\<rparr>"
    by (simp add: Expense_pre_save_def)
  show "IExpense.currency e \<noteq> ''EUR'' \<and> findOne coll e = None \<longrightarrow> Expense_pre_save coll e = e"
    by (simp add: Expense_pre_save_def)
  show "IExpense.currency e \<noteq> ''EUR'' \<and> findOne coll e = Some r \<and> rate r \<noteq> 0 \<longrightarrow>
      Expense_pre_save coll e = e\<lparr>amountInEuro := Some (Finite (IExpense.amount e / rate r))\<rparr>"
    by (simp add: Expense_pre_save_def js_divide_def)
  show "IExpense.currency e \<noteq> ''EUR'' \<and> findOne coll e = Some r \<and> rate r = 0
        \<and> 0 < IExpense.amount e \<longrightarrow>
      Expense_pre_save coll e = e\<lparr>amountInEuro := Some PosInfinity\<rparr>"
    by (simp add: Expense_pre_save_def js_divide_def)
  show "IExpense.currency e \<noteq> ''EUR'' \<and> findOne coll e = Some r \<and> rate r = 0
        \<and> IExpense.amount e < 0 \<longrightarrow>
      Expense_pre_save coll e = e\<lparr>amountInEuro := Some NegInfinity\<rparr>"
    by (simp add: Expense_pre_save_def js_divide_def)
  show "IExpense.currency e \<noteq> ''EUR'' \<and> findOne coll e = Some r \<and> rate r = 0
        \<and> IExpense.amount e = 0 \<longrightarrow>
      Expense_pre_save coll e = e"
    by (simp add: Expense_pre_save_def js_divide_def)
  show "findOne coll e = None \<longleftrightarrow> (\<forall>s \<in> set coll. \<not> rate_matches e s)"
    by (rule findOne_None)
  show "findOne coll e = Some r \<longrightarrow>
      r \<in> set coll \<and> fromCurrency r = IExpense.currency e \<and> toCurrency r = ''EUR''
      \<and> IExchangeRate.date r \<le> expenseDate e \<and> isActive r
      \<and> (\<forall>s \<in> set coll. rate_matches e s \<longrightarrow> IExchangeRate.date s \<le> IExchangeRate.date r)"
    using findOne_Some [of coll e r] by (simp add: rate_matches_def)
  show "Expense_pre_save (map (\<lambda>s. s\<lparr>validFrom := f s, validTo := t s\<rparr>) coll) e
       = Expense_pre_save coll e"
    by (cases "findOne coll e") (simp_all add: Expense_pre_save_def findOne_validity)
qed

text \<open>
  C7, at the expense of 100 USD: with the rate of 2 dated day 1 the amount in euro is 50,
  with that rate set to 0 it is infinite, with no rate it stays as stored; an expense of
  0 USD at a rate of 0 keeps the stored amount; an expense of 100 EUR has 100 as its
  amount in euro.
\<close>

theorem C7_expense_conversion_witness:
  "IExpense.currency expense_usd \<noteq> ''EUR'' \<and> findOne [rate_expired] expense_usd = Some rate_expired
   \<and> amountInEuro (Expense_pre_save [rate_expired] expense_usd) = Some (Finite 50)
   \<and> amountInEuro (Expense_pre_save [rate_expired\<lparr>rate := 0\<rparr>] expense_usd) = Some PosInfinity
   \<and> amountInEuro (Expense_pre_save [rate_expired\<lparr>rate := 0\<rparr>] (expense_usd\<lparr>IExpense.amount := 0\<rparr>))
       = Some (Finite 100)
   \<and> findOne [] expense_usd = None
   \<and> amountInEuro (Expense_pre_save [] expense_usd) = Some (Finite 100)
   \<and> amountInEuro (Expense_pre_save [rate_expired] (expense_usd\<lparr>IExpense.currency := ''EUR''\<rparr>))
       = Some (Finite 100)"
proof -
  let ?z = "rate_expired\<lparr>rate := 0\<rparr>"
  let ?e0 = "expense_usd\<lparr>IExpense.amount := 0\<rparr>"
  have e: "IExpense.currency expense_usd \<noteq> ''EUR''" "findOne [rate_expired] expense_usd = Some rate_expired"
    "rate rate_expired = 2" "findOne [] expense_usd = None"
    "amountInEuro expense_usd = Some (Finite 100)" "IExpense.amount expense_usd = 100"
    "findOne [?z] expense_usd = Some ?z" "findOne [?z] ?e0 = Some ?z"
    by (simp_all add: findOne_def rate_matches_def rate_expired_def expense_usd_def)
  from C7_expense_conversion [of expense_usd "[rate_expired]" rate_expired]
    C7_expense_conversion [of expense_usd "[?z]" ?z]
    C7_expense_conversion [of ?e0 "[?z]" ?z]
    C7_expense_conversion [of expense_usd "[]" rate_expired]
    C7_expense_conversion [of "expense_usd\<lparr>IExpense.currency := ''EUR''\<rparr>" "[rate_expired]" rate_expired]
  show ?thesis
    by (simp add: e)
qed

section \<open>Batch cost\<close>

text \<open>
  C8, as the specification states it, fails: a batch of 500 pieces bought for 1000 with
  shipping 100 gets a total cost of 1100 and no cost per unit.
\<close>

theorem C8_pieces_no_unit_cost:
  "totalCost (Batch_pre_save (new_batch PIECES 1000 (Some 100) (Some 500))) = Some 1100
   \<and> costPerKg (Batch_pre_save (new_batch PIECES 1000 (Some 100) (Some 500))) = None"
  by (simp add: Batch_pre_save_def new_batch_def Let_def or0_def truthy_def)

text \<open>
  C8, amended. The save of a batch with a purchase price other than \<open>0\<close> sets \<open>totalCost\<close>
  to the sum of purchase price, shipping cost, customs duty and other costs (an absent one
  counting as \<open>0\<close>), as the numbers stand: the currency and the order date of the batch
  play no part. If moreover the received quantity is set and not \<open>0\<close> and the unit is
  \<open>KG\<close>, it sets \<open>costPerKg\<close> to the total cost divided by the received quantity. In every
  other case \<open>costPerKg\<close> is left as it was, and with a purchase price of \<open>0\<close> so is the
  whole batch.
\<close>

theorem C8_batch_cost:
  "(purchasePrice b \<noteq> 0 \<longrightarrow>
      totalCost (Batch_pre_save b) =
        Some (purchasePrice b + or0 (IBatch.shippingCost b) + or0 (customsDuty b) + or0 (otherCosts b)))
   \<and> (purchasePrice b \<noteq> 0 \<and> truthy (receivedQuantity b) \<and> unit b = KG \<longrightarrow>
      costPerKg (Batch_pre_save b) =
        Some ((purchasePrice b + or0 (IBatch.shippingCost b) + or0 (customsDuty b) + or0 (otherCosts b))
              / or0 (receivedQuantity b)))
   \<and> (\<not> (purchasePrice b \<noteq> 0 \<and> truthy (receivedQuantity b) \<and> unit b = KG) \<longrightarrow>
      costPerKg (Batch_pre_save b) = costPerKg b)
   \<and> (purchasePrice b = 0 \<longrightarrow> Batch_pre_save b = b)
   \<and> totalCost (Batch_pre_save (b\<lparr>IBatch.currency := c, orderDate := d\<rparr>)) = totalCost (Batch_pre_save b)
   \<and> costPerKg (Batch_pre_save (b\<lparr>IBatch.currency := c, orderDate := d\<rparr>)) = costPerKg (Batch_pre_save b)"
  by (simp add: Batch_pre_save_def Let_def or0_def)

text \<open>
  C8, at 1000 plus shipping 100 over 500 KG: the total cost is 1100 and the cost per KG
  2.20. The same batch with no received quantity keeps its cost per KG absent; bought for
  0 it is left as it was.
\<close>

theorem C8_scenario_D:
  "purchasePrice (new_batch KG 1000 (Some 100) (Some 500)) \<noteq> 0
   \<and> truthy (receivedQuantity (new_batch KG 1000 (Some 100) (Some 500)))
   \<and> totalCost (Batch_pre_save (new_batch KG 1000 (Some 100) (Some 500))) = Some 1100
   \<and> costPerKg (Batch_pre_save (new_batch KG 1000 (Some 100) (Some 500))) = Some (11 / 5)
   \<and> costPerKg (Batch_pre_save (new_batch KG 1000 (Some 100) None)) = None
   \<and> Batch_pre_save (new_batch KG 0 (Some 100) (Some 500)) = new_batch KG 0 (Some 100) (Some 500)"
proof -
  let ?b = "new_batch KG 1000 (Some 100) (Some 500)"
  let ?c = "new_batch KG 1000 (Some 100) None"
  let ?z = "new_batch KG 0 (Some 100) (Some 500)"
  have e: "purchasePrice ?b = 1000" "IBatch.shippingCost ?b = Some 100" "customsDuty ?b = None"
    "otherCosts ?b = None" "receivedQuantity ?b = Some 500" "unit ?b = KG"
    "receivedQuantity ?c = None" "costPerKg ?c = None" "purchasePrice ?z = 0"
    by (simp_all add: new_batch_def)
  from C8_batch_cost [of ?b] C8_batch_cost [of ?c] C8_batch_cost [of ?z] show ?thesis
    by (simp add: e truthy_def or0_def)
qed

section \<open>Marking an invoice as paid\<close>

text \<open>
  C10. \<open>markAsPaid\<close> sets \<open>paidAmount\<close> to the total, \<open>outstandingAmount\<close> to \<open>0\<close> and the
  status to \<open>PAID\<close>; it appends no payment and changes no other field. So whenever the
  total differs from the sum of the payments, the stored paid amount differs from that
  sum afterwards, until \<open>calculateTotals\<close> next sets it back to the sum.
\<close>

theorem C10_markAsPaid:
  "paidAmount (markAsPaid v) = IInvoice.total v
   \<and> outstandingAmount (markAsPaid v) = 0
   \<and> IInvoice.status (markAsPaid v) = PAID
   \<and> IInvoice.payments (markAsPaid v) = IInvoice.payments v
   \<and> markAsPaid v = v\<lparr>paidAmount := paidAmount (markAsPaid v),
                        outstandingAmount := outstandingAmount (markAsPaid v),
                        IInvoice.status := IInvoice.status (markAsPaid v)\<rparr>
   \<and> (IInvoice.total v \<noteq> invoicePaid (IInvoice.payments v) \<longrightarrow>
        paidAmount (markAsPaid v) \<noteq> invoicePaid (IInvoice.payments (markAsPaid v)))
   \<and> paidAmount (Invoice_calculateTotals (markAsPaid v)) = invoicePaid (IInvoice.payments v)"
  by (simp add: markAsPaid_def Invoice_fields)

text \<open>
  C10, at an invoice with a stored total of 50 and no payment: marked as paid, it stores
  50 paid, and the sum of its payments is 0.
\<close>

theorem C10_markAsPaid_witness:
  "IInvoice.total (new_invoice SENT 0 [new_invoice_item 2 25 None] None 50 (Some []))
     \<noteq> invoicePaid (IInvoice.payments (new_invoice SENT 0 [new_invoice_item 2 25 None] None 50 (Some [])))
   \<and> paidAmount (markAsPaid (new_invoice SENT 0 [new_invoice_item 2 25 None] None 50 (Some []))) = 50
   \<and> invoicePaid (IInvoice.payments
        (markAsPaid (new_invoice SENT 0 [new_invoice_item 2 25 None] None 50 (Some [])))) = 0
   \<and> paidAmount (Invoice_calculateTotals
        (markAsPaid (new_invoice SENT 0 [new_invoice_item 2 25 None] None 50 (Some [])))) = 0"
proof -
  let ?v = "new_invoice SENT 0 [new_invoice_item 2 25 None] None 50 (Some [])"
  have e: "IInvoice.total ?v = 50" "invoicePaid (IInvoice.payments ?v) = 0"
    by (simp_all add: new_invoice_def invoicePaid_def)
  from C10_markAsPaid [of ?v] show ?thesis
    by (simp add: e)
qed

end
